theory Spec2Isabelle
  imports
    Main
    "HOL-Library.Word"
    "HOL-Library.Char_ord"
    "HOL-Library.List_Lexorder"
    "HOL-Library.Sublist"
    "HOL-Library.AList"
    "HOL-Library.RBT"
begin

section \<open>OISB::System (source/oisb/OISBSystem.cpp)\<close>

text \<open>
  A shallow embedding of the orchestration layer of the OISB input-binding library:
  the name registries of \<^verbatim>\<open>System\<close>, the hierarchical lookups, and the XML
  persistence of action schemas.  Objects live in a free store and are referred to by
  pointers; a \<^verbatim>\<open>std::map<String, T*>\<close> is a red-black tree ordered by the
  lexicographic byte order of its keys; a C++ exception is a value of type
  \<open>failure\<close>, returned together with the state at the point of the throw.
\<close>

subsection \<open>Pointers, exceptions, strings\<close>

text \<open>
  A pointer is null, the address 1 (the code writes \<^verbatim>\<open>(Bindable*)1\<close> for a
  reserved slot that is bound to nothing), or the address of an object of the free store.
\<close>

datatype ptr = NullPtr | OnePtr | Ref nat

datatype OIS_ERROR = E_General | E_Duplicate

text \<open>
  \<open>OIS_Exception\<close> is what \<^verbatim>\<open>OIS_EXCEPT\<close> throws, \<open>out_of_range\<close> is thrown by
  \<^verbatim>\<open>std::string::substr\<close>, \<open>parse_error\<close> by the rapidxml parser;
  \<open>invalid_access\<close> stands for the dereference of a pointer that refers to no live
  object (undefined behaviour in C++).
\<close>

datatype failure = OIS_Exception OIS_ERROR string | out_of_range | parse_error | invalid_access

definition quote :: "string \<Rightarrow> string" where
  "quote s = [CHR 0x27] @ s @ [CHR 0x27]"

text \<open>\<^verbatim>\<open>String::size_type\<close> is an unsigned 64-bit integer; \<^verbatim>\<open>npos\<close> is its largest value.\<close>

type_synonym size_type = "64 word"

definition npos :: size_type where
  "npos = - 1"

fun find_from :: "string \<Rightarrow> string \<Rightarrow> nat \<Rightarrow> nat option" where
  "find_from [] t k = (if t = [] then Some k else None)"
| "find_from (c # s) t k = (if prefix t (c # s) then Some k else find_from s t (Suc k))"

text \<open>\<^verbatim>\<open>s.find(t)\<close>: the position of the first occurrence of \<open>t\<close> in \<open>s\<close>, or \<^verbatim>\<open>npos\<close>.\<close>

definition find_str :: "string \<Rightarrow> string \<Rightarrow> size_type" where
  "find_str s t = (case find_from s t 0 of None \<Rightarrow> npos | Some k \<Rightarrow> of_nat k)"

text \<open>
  \<^verbatim>\<open>s.substr(pos, n)\<close> throws \<^verbatim>\<open>std::out_of_range\<close> when \<open>pos\<close> is past the end,
  and otherwise copies at most \<open>n\<close> characters from \<open>pos\<close> on; \<open>n\<close> defaults to \<^verbatim>\<open>npos\<close>.
\<close>

definition substr :: "string \<Rightarrow> size_type \<Rightarrow> size_type \<Rightarrow> failure + string" where
  "substr s pos n =
     (if length s < unat pos then Inl out_of_range
      else Inr (take (unat n) (drop (unat pos) s)))"

text \<open>
  \<^verbatim>\<open>std::map::insert\<close> keeps the old entry when the key is already present.
\<close>

definition map_insert :: "string \<Rightarrow> ptr \<Rightarrow> (string, ptr) rbt \<Rightarrow> (string, ptr) rbt" where
  "map_insert k v m = (if RBT.lookup m k = None then RBT.insert k v m else m)"

subsection \<open>The objects\<close>

text \<open>
  The classes \<^verbatim>\<open>Device\<close>, \<^verbatim>\<open>State\<close>, \<^verbatim>\<open>Binding\<close>, \<^verbatim>\<open>Action\<close> and
  \<^verbatim>\<open>ActionSchema\<close> are declared outside OISBSystem.cpp.  The members \<open>mOptional\<close>,
  \<open>mBindables\<close>, \<open>mBindings\<close> and \<open>mActions\<close> are read by OISBSystem.cpp, with the
  types given here; the other fields follow the data model of the spec.
\<close>

text \<open>
  Modelled from the spec: the class \<^verbatim>\<open>Device\<close> is not in OISBSystem.cpp.  A Device has
  a name and owns a mapping from state name to State.
\<close>

record Device =
  Device_mName :: string
  mStates :: "string \<rightharpoonup> ptr"

text \<open>
  Modelled from the spec: the class \<^verbatim>\<open>State\<close> is not in OISBSystem.cpp.  A State is a
  Bindable, and every Bindable has a name.
\<close>

record State =
  State_mBindableName :: string

text \<open>
  Modelled from the spec: the class \<^verbatim>\<open>Binding\<close> is not in OISBSystem.cpp, which reads
  its members \<open>mOptional\<close> and \<open>mBindables\<close>.  A Binding is an ordered list of pairs
  of a role label and a Bindable or placeholder, and carries an optional flag.
\<close>

record Binding =
  mOptional :: bool
  mBindables :: "(string \<times> ptr) list"

datatype ActionType = AT_TRIGGER | AT_ANALOG_AXIS | AT_SEQUENCE

text \<open>
  Modelled from the spec: the class \<^verbatim>\<open>Action\<close> is not in OISBSystem.cpp, which reads
  its member \<open>mBindings\<close>.  An Action is a Bindable with a name, a type from a closed
  set, a property table from string keys to string values, for the emulation of an analog
  axis the property table of its emulator, and an ordered sequence of Bindings.
\<close>

record Action =
  Action_mName :: string
  Action_mBindableName :: string
  actionType :: ActionType
  properties :: "(string \<times> string) list"
  emulatorProperties :: "(string \<times> string) list"
  mBindings :: "ptr list"

text \<open>
  Modelled from the spec: the class \<^verbatim>\<open>ActionSchema\<close> is not in OISBSystem.cpp, which
  reads its member \<open>mActions\<close>.  An ActionSchema has a name and owns a mapping from
  action name to Action.
\<close>

record ActionSchema =
  ActionSchema_mName :: string
  mActions :: "(string, ptr) rbt"

text \<open>
  The members of \<^verbatim>\<open>System\<close> that the code below uses, and the free store: one
  partial map from addresses to objects for each class, and the next address that
  \<^verbatim>\<open>new\<close> hands out.
\<close>

record System =
  mDevices :: "(string, ptr) rbt"
  mActionSchemas :: "(string, ptr) rbt"
  mDefaultActionSchema :: ptr
  devices :: "nat \<rightharpoonup> Device"
  states :: "nat \<rightharpoonup> State"
  schemas :: "nat \<rightharpoonup> ActionSchema"
  actions :: "nat \<rightharpoonup> Action"
  bindings :: "nat \<rightharpoonup> Binding"
  nextRef :: nat

text \<open>The state after the constructor \<^verbatim>\<open>System::System()\<close>.\<close>

definition System_new :: System where
  "System_new =
     \<lparr>mDevices = RBT.empty, mActionSchemas = RBT.empty, mDefaultActionSchema = NullPtr,
      devices = Map.empty, states = Map.empty, schemas = Map.empty, actions = Map.empty,
      bindings = Map.empty, nextRef = 0\<rparr>"

definition deviceAt :: "System \<Rightarrow> ptr \<Rightarrow> Device option" where
  "deviceAt sys p = (case p of Ref a \<Rightarrow> devices sys a | _ \<Rightarrow> None)"

definition schemaAt :: "System \<Rightarrow> ptr \<Rightarrow> ActionSchema option" where
  "schemaAt sys p = (case p of Ref a \<Rightarrow> schemas sys a | _ \<Rightarrow> None)"

definition actionAt :: "System \<Rightarrow> ptr \<Rightarrow> Action option" where
  "actionAt sys p = (case p of Ref a \<Rightarrow> actions sys a | _ \<Rightarrow> None)"

definition bindingAt :: "System \<Rightarrow> ptr \<Rightarrow> Binding option" where
  "bindingAt sys p = (case p of Ref a \<Rightarrow> bindings sys a | _ \<Rightarrow> None)"

subsection \<open>Devices and states\<close>

definition getDevice :: "System \<Rightarrow> string \<Rightarrow> failure + ptr" where
  "getDevice sys name =
     (case RBT.lookup (mDevices sys) name of
        None \<Rightarrow> Inl (OIS_Exception E_General (''Device '' @ quote name @ '' not found!''))
      | Some d \<Rightarrow> Inr d)"

definition hasDevice :: "System \<Rightarrow> string \<Rightarrow> bool" where
  "hasDevice sys name = (RBT.lookup (mDevices sys) name \<noteq> None)"

text \<open>
  Modelled from the spec: \<^verbatim>\<open>Device::hasState\<close> is not in OISBSystem.cpp.  A Device is
  queried by state name.
\<close>

definition Device_hasState :: "System \<Rightarrow> ptr \<Rightarrow> string \<Rightarrow> failure + bool" where
  "Device_hasState sys dev name =
     (case deviceAt sys dev of
        None \<Rightarrow> Inl invalid_access
      | Some d \<Rightarrow> Inr (mStates d name \<noteq> None))"

text \<open>
  Modelled from the spec: \<^verbatim>\<open>Device::getState\<close> is not in OISBSystem.cpp.  It returns
  the State of that name; asking for a state that does not exist is a contract violation,
  reported as a hard failure.
\<close>

definition Device_getState :: "System \<Rightarrow> ptr \<Rightarrow> string \<Rightarrow> failure + ptr" where
  "Device_getState sys dev name =
     (case deviceAt sys dev of
        None \<Rightarrow> Inl invalid_access
      | Some d \<Rightarrow>
          (case mStates d name of
             None \<Rightarrow> Inl (OIS_Exception E_General (''State '' @ quote name @ '' not found!''))
           | Some s \<Rightarrow> Inr s))"

definition lookupState :: "System \<Rightarrow> string \<Rightarrow> failure + ptr" where
  "lookupState sys name =
     (let i = find_str name ''/'' in
      case substr name 0 i of
        Inl e \<Rightarrow> Inl e
      | Inr deviceName \<Rightarrow>
          if hasDevice sys deviceName then
            (case getDevice sys deviceName of
               Inl e \<Rightarrow> Inl e
             | Inr dev \<Rightarrow>
                 (case substr name (i + 1) npos of
                    Inl e \<Rightarrow> Inl e
                  | Inr stateName \<Rightarrow>
                      (case Device_hasState sys dev stateName of
                         Inl e \<Rightarrow> Inl e
                       | Inr has \<Rightarrow>
                           if has then Device_getState sys dev stateName
                           else Inr NullPtr)))
          else Inr NullPtr)"

definition addDevice :: "System \<Rightarrow> ptr \<Rightarrow> (failure + unit) \<times> System" where
  "addDevice sys device =
     (case deviceAt sys device of
        None \<Rightarrow> (Inl invalid_access, sys)
      | Some d \<Rightarrow>
          (case RBT.lookup (mDevices sys) (Device_mName d) of
             Some _ \<Rightarrow>
               (Inl (OIS_Exception E_Duplicate
                  (''Device with name '' @ quote (Device_mName d) @ '' already exists!'')), sys)
           | None \<Rightarrow>
               (Inr (), sys\<lparr>mDevices := map_insert (Device_mName d) device (mDevices sys)\<rparr>)))"

subsection \<open>Action schemas\<close>

definition setDefaultActionSchema :: "System \<Rightarrow> ptr \<Rightarrow> System" where
  "setDefaultActionSchema sys schema = sys\<lparr>mDefaultActionSchema := schema\<rparr>"

text \<open>
  Modelled from the spec: the constructor \<^verbatim>\<open>ActionSchema(name)\<close> is not in
  OISBSystem.cpp; a new schema has its name and owns no action.
\<close>

definition new_ActionSchema :: "System \<Rightarrow> string \<Rightarrow> ptr \<times> System" where
  "new_ActionSchema sys name =
     (Ref (nextRef sys),
      sys\<lparr>schemas := (schemas sys)(nextRef sys \<mapsto> \<lparr>ActionSchema_mName = name, mActions = RBT.empty\<rparr>),
          nextRef := Suc (nextRef sys)\<rparr>)"

definition createActionSchema :: "System \<Rightarrow> string \<Rightarrow> bool \<Rightarrow> (failure + ptr) \<times> System" where
  "createActionSchema sys name setAsDefault =
     (case RBT.lookup (mActionSchemas sys) name of
        Some _ \<Rightarrow>
          (Inl (OIS_Exception E_Duplicate
             (''Action schema '' @ quote name @ '' already exists'')), sys)
      | None \<Rightarrow>
          (let (ret, sys1) = new_ActionSchema sys name;
               sys2 = sys1\<lparr>mActionSchemas := map_insert name ret (mActionSchemas sys1)\<rparr>;
               sys3 = (if setAsDefault then setDefaultActionSchema sys2 ret else sys2)
           in (Inr ret, sys3)))"

text \<open>
  Modelled from the spec: the destructor of \<^verbatim>\<open>Action\<close> is not in OISBSystem.cpp; an
  Action owns its Bindings, which are destroyed with it.
\<close>

definition release_Action :: "ptr \<Rightarrow> System \<Rightarrow> System" where
  "release_Action p sys =
     (case p of
        Ref a \<Rightarrow>
          (case actions sys a of
             None \<Rightarrow> sys
           | Some act \<Rightarrow>
               sys\<lparr>actions := (actions sys)(a := None),
                   bindings := (\<lambda>b. if Ref b \<in> set (mBindings act) then None
                                     else bindings sys b)\<rparr>)
      | _ \<Rightarrow> sys)"

text \<open>
  Modelled from the spec: the destructor of \<^verbatim>\<open>ActionSchema\<close> is not in
  OISBSystem.cpp; releasing a schema releases all its Actions and their Bindings.
  Deleting a null pointer does nothing.
\<close>

definition delete_ActionSchema :: "System \<Rightarrow> ptr \<Rightarrow> (failure + unit) \<times> System" where
  "delete_ActionSchema sys p =
     (case p of
        NullPtr \<Rightarrow> (Inr (), sys)
      | OnePtr \<Rightarrow> (Inl invalid_access, sys)
      | Ref a \<Rightarrow>
          (case schemas sys a of
             None \<Rightarrow> (Inl invalid_access, sys)
           | Some sch \<Rightarrow>
               (Inr (),
                fold release_Action (map snd (RBT.entries (mActions sch)))
                  (sys\<lparr>schemas := (schemas sys)(a := None)\<rparr>))))"

definition destroyActionSchema :: "System \<Rightarrow> string \<Rightarrow> (failure + unit) \<times> System" where
  "destroyActionSchema sys name =
     (case RBT.lookup (mActionSchemas sys) name of
        None \<Rightarrow>
          (Inl (OIS_Exception E_General
             (''Action schema '' @ quote name @ '' not found'')), sys)
      | Some schema \<Rightarrow>
          (let sys1 = sys\<lparr>mActionSchemas := RBT.delete name (mActionSchemas sys)\<rparr>;
               sys2 = (if schema = mDefaultActionSchema sys1
                       then setDefaultActionSchema sys1 NullPtr else sys1)
           in delete_ActionSchema sys2 schema))"

definition getActionSchema :: "System \<Rightarrow> string \<Rightarrow> failure + ptr" where
  "getActionSchema sys name =
     (case RBT.lookup (mActionSchemas sys) name of
        None \<Rightarrow>
          Inl (OIS_Exception E_General (''Action schema '' @ quote name @ '' not found''))
      | Some s \<Rightarrow> Inr s)"

definition hasActionSchema :: "System \<Rightarrow> string \<Rightarrow> bool" where
  "hasActionSchema sys name = (RBT.lookup (mActionSchemas sys) name \<noteq> None)"

text \<open>
  Modelled from the spec: \<^verbatim>\<open>getDefaultActionSchema\<close> is not in OISBSystem.cpp; the
  System holds a nullable reference to the default schema, and this returns it.
\<close>

definition getDefaultActionSchema :: "System \<Rightarrow> ptr" where
  "getDefaultActionSchema sys = mDefaultActionSchema sys"

definition getDefaultActionSchemaAutoCreate :: "System \<Rightarrow> (failure + ptr) \<times> System" where
  "getDefaultActionSchemaAutoCreate sys =
     (if mDefaultActionSchema sys = NullPtr then
        (case createActionSchema sys ''Default'' True of
           (Inl e, sys1) \<Rightarrow> (Inl e, sys1)
         | (Inr _, sys1) \<Rightarrow> (Inr (getDefaultActionSchema sys1), sys1))
      else (Inr (getDefaultActionSchema sys), sys))"

text \<open>
  Modelled from the spec: \<^verbatim>\<open>ActionSchema::hasAction\<close> is not in OISBSystem.cpp; it
  queries the schema's mapping from action name to Action.
\<close>

definition ActionSchema_hasAction :: "System \<Rightarrow> ptr \<Rightarrow> string \<Rightarrow> failure + bool" where
  "ActionSchema_hasAction sys schema name =
     (case schemaAt sys schema of
        None \<Rightarrow> Inl invalid_access
      | Some sch \<Rightarrow> Inr (RBT.lookup (mActions sch) name \<noteq> None))"

text \<open>
  Modelled from the spec: \<^verbatim>\<open>ActionSchema::getAction\<close> is not in OISBSystem.cpp; it
  returns the Action of that name, and asking for a missing action is a hard failure.
\<close>

definition ActionSchema_getAction :: "System \<Rightarrow> ptr \<Rightarrow> string \<Rightarrow> failure + ptr" where
  "ActionSchema_getAction sys schema name =
     (case schemaAt sys schema of
        None \<Rightarrow> Inl invalid_access
      | Some sch \<Rightarrow>
          (case RBT.lookup (mActions sch) name of
             None \<Rightarrow> Inl (OIS_Exception E_General (''Action '' @ quote name @ '' not found''))
           | Some a \<Rightarrow> Inr a))"

definition lookupAction :: "System \<Rightarrow> string \<Rightarrow> bool \<Rightarrow> failure + ptr" where
  "lookupAction sys name throwOnMissing =
     (let i = find_str name ''/'' in
      case substr name 0 i of
        Inl e \<Rightarrow> Inl e
      | Inr schemaName \<Rightarrow>
          if hasActionSchema sys schemaName then
            (case getActionSchema sys schemaName of
               Inl e \<Rightarrow> Inl e
             | Inr schema \<Rightarrow>
                 (case substr name (i + 1) npos of
                    Inl e \<Rightarrow> Inl e
                  | Inr actionName \<Rightarrow>
                      (case ActionSchema_hasAction sys schema actionName of
                         Inl e \<Rightarrow> Inl e
                       | Inr has \<Rightarrow>
                           if has then ActionSchema_getAction sys schema actionName
                           else if throwOnMissing then
                             Inl (OIS_Exception E_General
                               (''Action '' @ quote actionName @ '' in schema '' @
                                quote schemaName @ '' not found''))
                           else Inr NullPtr)))
          else if throwOnMissing then
            Inl (OIS_Exception E_General
              (''Action schema '' @ quote schemaName @ '' not found''))
          else Inr NullPtr)"

definition lookupBindable :: "System \<Rightarrow> string \<Rightarrow> failure + ptr" where
  "lookupBindable sys name =
     (case lookupState sys name of
        Inl e \<Rightarrow> Inl e
      | Inr state \<Rightarrow>
          if state \<noteq> NullPtr then Inr state
          else
            (case lookupAction sys name False of
               Inl e \<Rightarrow> Inl e
             | Inr action \<Rightarrow> if action \<noteq> NullPtr then Inr action else Inr NullPtr))"

subsection \<open>Bindings, actions and their properties\<close>

text \<open>
  Modelled from the spec: \<^verbatim>\<open>getBindableName\<close> is not in OISBSystem.cpp.  A State
  and an Action are both Bindables and have a name.
\<close>

definition getBindableName :: "System \<Rightarrow> ptr \<Rightarrow> failure + string" where
  "getBindableName sys p =
     (case p of
        Ref a \<Rightarrow>
          (case states sys a of
             Some st \<Rightarrow> Inr (State_mBindableName st)
           | None \<Rightarrow>
               (case actions sys a of
                  Some act \<Rightarrow> Inr (Action_mBindableName act)
                | None \<Rightarrow> Inl invalid_access))
      | _ \<Rightarrow> Inl invalid_access)"

text \<open>
  Modelled from the spec: \<^verbatim>\<open>Action::setProperty\<close> is not in OISBSystem.cpp.  Setting
  a property stores the value in the property table under its key; unknown keys are
  accepted and stored.
\<close>

definition Action_setProperty ::
  "System \<Rightarrow> ptr \<Rightarrow> string \<Rightarrow> string \<Rightarrow> (failure + unit) \<times> System" where
  "Action_setProperty sys action key val =
     (case action of
        Ref a \<Rightarrow>
          (case actions sys a of
             None \<Rightarrow> (Inl invalid_access, sys)
           | Some act \<Rightarrow>
               (Inr (),
                sys\<lparr>actions :=
                  (actions sys)(a \<mapsto> act\<lparr>properties := AList.update key val (properties act)\<rparr>)\<rparr>))
      | _ \<Rightarrow> (Inl invalid_access, sys))"

text \<open>
  Modelled from the spec: \<^verbatim>\<open>Action::createBinding\<close> is not in OISBSystem.cpp.  It
  appends a new Binding, empty and not optional, to the Bindings of the Action.
\<close>

definition Action_createBinding :: "System \<Rightarrow> ptr \<Rightarrow> (failure + ptr) \<times> System" where
  "Action_createBinding sys action =
     (case action of
        Ref a \<Rightarrow>
          (case actions sys a of
             None \<Rightarrow> (Inl invalid_access, sys)
           | Some act \<Rightarrow>
               (Inr (Ref (nextRef sys)),
                sys\<lparr>bindings := (bindings sys)(nextRef sys \<mapsto> \<lparr>mOptional = False, mBindables = []\<rparr>),
                    actions := (actions sys)(a \<mapsto> act\<lparr>mBindings := mBindings act @ [Ref (nextRef sys)]\<rparr>),
                    nextRef := Suc (nextRef sys)\<rparr>))
      | _ \<Rightarrow> (Inl invalid_access, sys))"

text \<open>
  Modelled from the spec: \<^verbatim>\<open>Binding::bind\<close> is not in OISBSystem.cpp.  It resolves
  the target by name and appends the pair of the role and the Bindable; a target that
  does not resolve is left as a named placeholder (the name in the first component, a null
  Bindable, as the save routine reads it back), and this is not an error.
\<close>

definition Binding_bind ::
  "System \<Rightarrow> ptr \<Rightarrow> string \<Rightarrow> string \<Rightarrow> (failure + unit) \<times> System" where
  "Binding_bind sys binding bindable role =
     (case binding of
        Ref b \<Rightarrow>
          (case bindings sys b of
             None \<Rightarrow> (Inl invalid_access, sys)
           | Some bd \<Rightarrow>
               (case lookupBindable sys bindable of
                  Inl e \<Rightarrow> (Inl e, sys)
                | Inr target \<Rightarrow>
                    (Inr (),
                     sys\<lparr>bindings := (bindings sys)(b \<mapsto> bd\<lparr>mBindables := mBindables bd @
                       [if target \<noteq> NullPtr then (role, target) else (bindable, NullPtr)]\<rparr>)\<rparr>)))
      | _ \<Rightarrow> (Inl invalid_access, sys))"

text \<open>
  Modelled from the spec: \<^verbatim>\<open>Action::bind\<close> is not in OISBSystem.cpp.  A bind node
  directly under an action node makes a Binding of its own with one role-less bind.
\<close>

definition Action_bind :: "System \<Rightarrow> ptr \<Rightarrow> string \<Rightarrow> (failure + unit) \<times> System" where
  "Action_bind sys action bindable =
     (case Action_createBinding sys action of
        (Inl e, sys1) \<Rightarrow> (Inl e, sys1)
      | (Inr binding, sys1) \<Rightarrow> Binding_bind sys1 binding bindable [])"

text \<open>
  Modelled from the spec: \<^verbatim>\<open>ActionSchema::createAction\<close> is not in OISBSystem.cpp.
  It fails with a Duplicate error if the name exists in the schema; otherwise it
  constructs the Action of the given type, registers it and returns it.
\<close>

definition ActionSchema_createAction ::
  "System \<Rightarrow> ptr \<Rightarrow> ActionType \<Rightarrow> string \<Rightarrow> (failure + ptr) \<times> System" where
  "ActionSchema_createAction sys schema t name =
     (case schema of
        Ref s \<Rightarrow>
          (case schemas sys s of
             None \<Rightarrow> (Inl invalid_access, sys)
           | Some sch \<Rightarrow>
               (case RBT.lookup (mActions sch) name of
                  Some _ \<Rightarrow>
                    (Inl (OIS_Exception E_Duplicate
                       (''Action '' @ quote name @ '' already exists'')), sys)
                | None \<Rightarrow>
                    (Inr (Ref (nextRef sys)),
                     sys\<lparr>actions := (actions sys)(nextRef sys \<mapsto>
                           \<lparr>Action_mName = name,
                            Action_mBindableName = ActionSchema_mName sch @ ''/'' @ name,
                            actionType = t, properties = [], emulatorProperties = [],
                            mBindings = []\<rparr>),
                         schemas := (schemas sys)(s \<mapsto>
                           sch\<lparr>mActions := map_insert name (Ref (nextRef sys)) (mActions sch)\<rparr>),
                         nextRef := Suc (nextRef sys)\<rparr>)))
      | _ \<Rightarrow> (Inl invalid_access, sys))"

subsection \<open>The document tree\<close>

text \<open>
  A node of the rapidxml tree: its name, its attributes in document order, its text
  value and its children in document order.  The names and values of a parsed tree are C
  strings.  A nullable \<^verbatim>\<open>xml_node<>*\<close> is an \<open>xml_node option\<close>.
\<close>

datatype xml_node =
  Node (node_name: string) (node_attributes: "(string \<times> string) list")
       (node_value: string) (node_children: "xml_node list")

definition c_str :: "string \<Rightarrow> string" where
  "c_str s = takeWhile (\<lambda>c. c \<noteq> CHR 0x00) s"

text \<open>\<^verbatim>\<open>n->first_attribute(name)\<close>: the first attribute of that name, or null.\<close>

definition first_attribute :: "xml_node \<Rightarrow> string \<Rightarrow> (string \<times> string) option" where
  "first_attribute n nm = find (\<lambda>a. fst a = nm) (node_attributes n)"

text \<open>
  The nodes visited by
  \<^verbatim>\<open>for (child = n->first_node(name); child; child = child->next_sibling())\<close>:
  the first child of that name and every sibling after it, whatever its name.
\<close>

definition first_node_siblings :: "xml_node \<Rightarrow> string \<Rightarrow> xml_node list" where
  "first_node_siblings n nm = dropWhile (\<lambda>c. node_name c \<noteq> nm) (node_children n)"

text \<open>
  A loop that calls a processing routine on each node in turn and drops the status code
  it returns; an exception leaves the loop.
\<close>

fun for_each ::
  "(System \<Rightarrow> xml_node \<Rightarrow> (failure + int) \<times> System) \<Rightarrow> xml_node list \<Rightarrow> System \<Rightarrow>
   (failure + unit) \<times> System" where
  "for_each f [] sys = (Inr (), sys)"
| "for_each f (c # cs) sys =
     (case f sys c of
        (Inl e, sys1) \<Rightarrow> (Inl e, sys1)
      | (Inr _, sys1) \<Rightarrow> for_each f cs sys1)"

subsection \<open>Loading\<close>

definition processActionBindXML ::
  "System \<Rightarrow> xml_node option \<Rightarrow> ptr \<Rightarrow> ptr \<Rightarrow> (failure + int) \<times> System" where
  "processActionBindXML sys bindNode binding action =
     (case bindNode of
        None \<Rightarrow> (Inr 1, sys)
      | Some n \<Rightarrow>
          if action = NullPtr then (Inr 1, sys)
          else
            (let role = (case first_attribute n ''role'' of None \<Rightarrow> [] | Some a \<Rightarrow> snd a);
                 r = (if binding \<noteq> NullPtr then
                        (if role \<noteq> [] then Binding_bind sys binding (node_value n) role
                         else Binding_bind sys binding (node_value n) [])
                      else Action_bind sys action (node_value n))
             in case r of
                  (Inl e, sys1) \<Rightarrow> (Inl e, sys1)
                | (Inr _, sys1) \<Rightarrow> (Inr 0, sys1)))"

definition set_mOptional :: "System \<Rightarrow> ptr \<Rightarrow> bool \<Rightarrow> (failure + unit) \<times> System" where
  "set_mOptional sys binding v =
     (case binding of
        Ref b \<Rightarrow>
          (case bindings sys b of
             None \<Rightarrow> (Inl invalid_access, sys)
           | Some bd \<Rightarrow> (Inr (), sys\<lparr>bindings := (bindings sys)(b \<mapsto> bd\<lparr>mOptional := v\<rparr>)\<rparr>))
      | _ \<Rightarrow> (Inl invalid_access, sys))"

definition processActionBindingXML ::
  "System \<Rightarrow> xml_node option \<Rightarrow> ptr \<Rightarrow> (failure + int) \<times> System" where
  "processActionBindingXML sys bindingNode action =
     (case bindingNode of
        None \<Rightarrow> (Inr 1, sys)
      | Some n \<Rightarrow>
          if action = NullPtr then (Inr 1, sys)
          else
            (case Action_createBinding sys action of
               (Inl e, sys1) \<Rightarrow> (Inl e, sys1)
             | (Inr binding, sys1) \<Rightarrow>
                 (case set_mOptional sys1 binding (first_attribute n ''optional'' \<noteq> None) of
                    (Inl e, sys2) \<Rightarrow> (Inl e, sys2)
                  | (Inr _, sys2) \<Rightarrow>
                      (case for_each (\<lambda>s child. processActionBindXML s (Some child) binding action)
                              (first_node_siblings n ''bind'') sys2 of
                         (Inl e, sys3) \<Rightarrow> (Inl e, sys3)
                       | (Inr _, sys3) \<Rightarrow> (Inr 0, sys3)))))"

text \<open>
  The creation step of the attribute loop of \<^verbatim>\<open>processActionXML\<close>; for a type outside
  the three known ones \<^verbatim>\<open>tmpAction\<close> stays null.
\<close>

definition createActionOfType :: "System \<Rightarrow> ptr \<Rightarrow> string \<Rightarrow> string \<Rightarrow> (failure + ptr) \<times> System" where
  "createActionOfType sys schema atype aname =
     (if atype = ''AnalogAxis'' then ActionSchema_createAction sys schema AT_ANALOG_AXIS aname
      else if atype = ''Sequence'' then ActionSchema_createAction sys schema AT_SEQUENCE aname
      else if atype = ''Trigger'' then ActionSchema_createAction sys schema AT_TRIGGER aname
      else (Inr NullPtr, sys))"

text \<open>
  The attribute loop of \<^verbatim>\<open>processActionXML\<close>, with its local variables \<^verbatim>\<open>type\<close>,
  \<^verbatim>\<open>name\<close> and \<^verbatim>\<open>tmpAction\<close>; it returns the final \<^verbatim>\<open>tmpAction\<close>.
\<close>

fun processAttributes ::
  "ptr \<Rightarrow> (string \<times> string) list \<Rightarrow> string \<Rightarrow> string \<Rightarrow> ptr \<Rightarrow> System \<Rightarrow>
   (failure + ptr) \<times> System" where
  "processAttributes schema [] atype aname tmpAction sys = (Inr tmpAction, sys)"
| "processAttributes schema (attr # attrs) atype aname tmpAction sys =
     (let atype1 = (if fst attr = ''type'' then snd attr else atype);
          aname1 = (if fst attr \<noteq> ''type'' \<and> fst attr = ''name'' then snd attr else aname)
      in case (if fst attr \<noteq> ''type'' \<and> fst attr \<noteq> ''name'' \<and> tmpAction \<noteq> NullPtr
               then Action_setProperty sys tmpAction (fst attr) (snd attr)
               else (Inr (), sys)) of
           (Inl e, sys1) \<Rightarrow> (Inl e, sys1)
         | (Inr _, sys1) \<Rightarrow>
             if atype1 \<noteq> [] \<and> aname1 \<noteq> [] \<and> tmpAction = NullPtr then
               (case createActionOfType sys1 schema atype1 aname1 of
                  (Inl e, sys2) \<Rightarrow> (Inl e, sys2)
                | (Inr created, sys2) \<Rightarrow> processAttributes schema attrs atype1 aname1 created sys2)
             else processAttributes schema attrs atype1 aname1 tmpAction sys1)"

definition processActionXML ::
  "System \<Rightarrow> xml_node option \<Rightarrow> ptr \<Rightarrow> (failure + int) \<times> System" where
  "processActionXML sys actionNode schema =
     (case actionNode of
        None \<Rightarrow> (Inr 1, sys)
      | Some n \<Rightarrow>
          (case processAttributes schema (node_attributes n) [] [] NullPtr sys of
             (Inl e, sys1) \<Rightarrow> (Inl e, sys1)
           | (Inr tmpAction, sys1) \<Rightarrow>
               (case for_each (\<lambda>s child. processActionBindingXML s (Some child) tmpAction)
                       (first_node_siblings n ''binding'') sys1 of
                  (Inl e, sys2) \<Rightarrow> (Inl e, sys2)
                | (Inr _, sys2) \<Rightarrow>
                    (case for_each (\<lambda>s child. processActionBindXML s (Some child) NullPtr tmpAction)
                            (first_node_siblings n ''bind'') sys2 of
                       (Inl e, sys3) \<Rightarrow> (Inl e, sys3)
                     | (Inr _, sys3) \<Rightarrow> (Inr 0, sys3)))))"

definition processSchemaXML :: "System \<Rightarrow> xml_node option \<Rightarrow> (failure + int) \<times> System" where
  "processSchemaXML sys schemaNode =
     (case schemaNode of
        None \<Rightarrow> (Inr 1, sys)
      | Some n \<Rightarrow>
          (case first_attribute n ''name'' of
             None \<Rightarrow> (Inr 2, sys)
           | Some a \<Rightarrow>
               (let schema_name = snd a in
                case (if \<not> hasActionSchema sys schema_name
                      then createActionSchema sys schema_name False
                      else (getActionSchema sys schema_name, sys)) of
                  (Inl e, sys1) \<Rightarrow> (Inl e, sys1)
                | (Inr schema, sys1) \<Rightarrow>
                    (case for_each (\<lambda>s child. processActionXML s (Some child) schema)
                            (first_node_siblings n ''action'') sys1 of
                       (Inl e, sys2) \<Rightarrow> (Inl e, sys2)
                     | (Inr _, sys2) \<Rightarrow> (Inr 0, sys2)))))"

text \<open>
  The rapidxml parser is outside the repository: \<open>parse\<close> gives the document node for a
  text, or \<open>None\<close> when the parser throws.  The children of the document node are the
  declaration and the root elements.
\<close>

type_synonym parser = "string \<Rightarrow> xml_node option"

definition loadActionSchemaFromXML ::
  "parser \<Rightarrow> System \<Rightarrow> string \<Rightarrow> (failure + int) \<times> System" where
  "loadActionSchemaFromXML parse sys xmlContent =
     (case parse xmlContent of
        None \<Rightarrow> (Inl parse_error, sys)
      | Some xmlActionSchema \<Rightarrow>
          (case find (\<lambda>c. node_name c = ''schemas'') (node_children xmlActionSchema) of
             None \<Rightarrow> (Inr 0, sys)
           | Some schemasNode \<Rightarrow>
               (case for_each (\<lambda>s child. processSchemaXML s (Some child))
                       (first_node_siblings schemasNode ''schema'') sys of
                  (Inl e, sys1) \<Rightarrow> (Inl e, sys1)
                | (Inr _, sys1) \<Rightarrow> (Inr 0, sys1))))"

text \<open>
  The file system maps a path to what is found there: nothing that can be opened, a
  regular file with its contents, or a directory, which opens but from which nothing can
  be read.
\<close>

datatype fs_entry = RegularFile string | Directory

type_synonym filesystem = "string \<rightharpoonup> fs_entry"

text \<open>
  The input stream \<^verbatim>\<open>myfile\<close>: whether it is open, whether reads succeed, the
  characters not yet read, and its end-of-file bit.
\<close>

record ifstream =
  is_open :: bool
  readable :: bool
  remaining :: string
  eofbit :: bool

definition open_ifstream :: "filesystem \<Rightarrow> string \<Rightarrow> ifstream" where
  "open_ifstream fs path =
     (case fs path of
        None \<Rightarrow> \<lparr>is_open = False, readable = False, remaining = [], eofbit = False\<rparr>
      | Some Directory \<Rightarrow> \<lparr>is_open = True, readable = False, remaining = [], eofbit = False\<rparr>
      | Some (RegularFile content) \<Rightarrow>
          \<lparr>is_open = True, readable = True, remaining = content, eofbit = False\<rparr>)"

text \<open>
  \<^verbatim>\<open>std::getline(myfile, line)\<close>: the characters up to the next line end, which is
  consumed; the end-of-file bit is set when the end of the file is met before a line end.
  On a stream that cannot be read the line is empty and the end-of-file bit stays as it
  is.
\<close>

definition getline :: "ifstream \<Rightarrow> string \<times> ifstream" where
  "getline myfile =
     (if \<not> readable myfile then ([], myfile)
      else if CHR 0x0A \<in> set (remaining myfile) then
        (takeWhile (\<lambda>c. c \<noteq> CHR 0x0A) (remaining myfile),
         myfile\<lparr>remaining := tl (dropWhile (\<lambda>c. c \<noteq> CHR 0x0A) (remaining myfile))\<rparr>)
      else (remaining myfile, myfile\<lparr>remaining := [], eofbit := True\<rparr>))"

text \<open>
  The loop \<^verbatim>\<open>while (!myfile.eof()) { getline(myfile, line); input_xml += line; }\<close>;
  \<open>None\<close> stands for a loop that never ends.
\<close>

partial_function (option) read_lines :: "ifstream \<Rightarrow> string \<Rightarrow> string option" where
  "read_lines myfile input_xml =
     (if eofbit myfile then Some input_xml
      else read_lines (snd (getline myfile)) (input_xml @ fst (getline myfile)))"

text \<open>
  The parser is given the text as a C string.  The result is \<open>None\<close> when the call
  does not return.
\<close>

definition loadActionSchemaFromXMLFile ::
  "parser \<Rightarrow> filesystem \<Rightarrow> System \<Rightarrow> string \<Rightarrow> ((failure + int) \<times> System) option" where
  "loadActionSchemaFromXMLFile parse fs sys filename =
     (let myfile = open_ifstream fs (c_str filename) in
      if is_open myfile then
        (case read_lines myfile [] of
           None \<Rightarrow> None
         | Some input_xml \<Rightarrow> Some (loadActionSchemaFromXML parse sys (c_str input_xml)))
      else Some (Inr 1, sys))"

subsection \<open>Saving\<close>

fun map_result :: "('a \<Rightarrow> failure + 'b) \<Rightarrow> 'a list \<Rightarrow> failure + 'b list" where
  "map_result f [] = Inr []"
| "map_result f (x # xs) =
     (case f x of
        Inl e \<Rightarrow> Inl e
      | Inr y \<Rightarrow> (case map_result f xs of Inl e \<Rightarrow> Inl e | Inr ys \<Rightarrow> Inr (y # ys)))"

text \<open>The node written for one entry \<^verbatim>\<open>*bnit\<close> of \<open>mBindables\<close>.\<close>

definition saveBindNode :: "System \<Rightarrow> string \<times> ptr \<Rightarrow> failure + xml_node" where
  "saveBindNode sys bnit =
     (if snd bnit \<noteq> NullPtr then
        (case (if snd bnit = OnePtr then Inr ''None'' else getBindableName sys (snd bnit)) of
           Inl e \<Rightarrow> Inl e
         | Inr nm \<Rightarrow> Inr (Node ''bind'' [(''role'', c_str (fst bnit))] (c_str nm) []))
      else Inr (Node ''bind'' [] (c_str (fst bnit)) []))"

text \<open>The node written for one Binding \<^verbatim>\<open>*bit\<close> (here \<open>b_it\<close>) of \<open>mBindings\<close>.\<close>

definition saveBindingNode :: "System \<Rightarrow> ptr \<Rightarrow> failure + xml_node" where
  "saveBindingNode sys b_it =
     (case bindingAt sys b_it of
        None \<Rightarrow> Inl invalid_access
      | Some bd \<Rightarrow>
          (case map_result (saveBindNode sys) (mBindables bd) of
             Inl e \<Rightarrow> Inl e
           | Inr binds \<Rightarrow>
               Inr (Node ''binding''
                      (if mOptional bd
                       then [(''optional'', if mOptional bd then ''1'' else ''0'')] else [])
                      [] binds)))"

definition excludedProperties :: "string list" where
  "excludedProperties =
     [''AbsoluteValue'', ''RelativeValue'', ''ParentActionSchemaName'', ''ActionName'',
      ''BindableType'', ''Active'', ''BindableName'', ''Changed'', ''Speed'']"

definition excludedEmulatorProperties :: "string list" where
  "excludedEmulatorProperties =
     [''BindableType'', ''Active'', ''BindableName'', ''Changed'', ''Speed'']"

text \<open>The node written for one Action \<^verbatim>\<open>ait->second\<close> of a schema.\<close>

definition saveActionNode :: "System \<Rightarrow> ptr \<Rightarrow> failure + xml_node" where
  "saveActionNode sys ait =
     (case actionAt sys ait of
        None \<Rightarrow> Inl invalid_access
      | Some act \<Rightarrow>
          (let attrs =
                 [(''name'', c_str (Action_mName act))] @
                 (if actionType act = AT_ANALOG_AXIS then [(''type'', ''AnalogAxis'')]
                  else if actionType act = AT_TRIGGER then [(''type'', ''Trigger'')]
                  else if actionType act = AT_SEQUENCE then [(''type'', ''Sequence'')]
                  else []) @
                 map (\<lambda>lit. (c_str (fst lit), c_str (snd lit)))
                   (filter (\<lambda>lit. fst lit \<notin> set excludedProperties) (properties act)) @
                 (if actionType act = AT_ANALOG_AXIS then
                    map (\<lambda>lit. (c_str (fst lit), c_str (snd lit)))
                      (filter (\<lambda>lit. fst lit \<notin> set excludedEmulatorProperties \<and> snd lit \<noteq> [])
                         (emulatorProperties act))
                  else [])
           in case (if actionType act = AT_ANALOG_AXIS
                    then map_result (saveBindingNode sys) (mBindings act)
                    else map_result (saveBindingNode sys) (mBindings act)) of
                Inl e \<Rightarrow> Inl e
              | Inr bs \<Rightarrow> Inr (Node ''action'' attrs [] bs)))"

definition saveSchemaNode :: "System \<Rightarrow> string \<times> ptr \<Rightarrow> failure + xml_node" where
  "saveSchemaNode sys it =
     (case schemaAt sys (snd it) of
        None \<Rightarrow> Inl invalid_access
      | Some sch \<Rightarrow>
          (case map_result (saveActionNode sys) (map snd (RBT.entries (mActions sch))) of
             Inl e \<Rightarrow> Inl e
           | Inr acts \<Rightarrow> Inr (Node ''schema'' [(''name'', c_str (fst it))] [] acts)))"

text \<open>
  The document that \<^verbatim>\<open>saveActionSchemaToXMLFile\<close> builds; the writing of the file is
  not modelled.
\<close>

definition saveDocument :: "System \<Rightarrow> failure + xml_node" where
  "saveDocument sys =
     (case map_result (saveSchemaNode sys) (RBT.entries (mActionSchemas sys)) of
        Inl e \<Rightarrow> Inl e
      | Inr ss \<Rightarrow>
          Inr (Node [] [] []
                 [Node [] [(''version'', ''1.0''), (''encoding'', ''utf-8'')] [] [],
                  Node ''schemas'' [] [] ss]))"

subsection \<open>Example configurations\<close>

text \<open>A System with one device \<^verbatim>\<open>Keyboard\<close> that has one state \<^verbatim>\<open>A\<close>.\<close>

definition sys_keyboard :: System where
  "sys_keyboard =
     snd (addDevice
       (System_new\<lparr>devices := [0 \<mapsto> \<lparr>Device_mName = ''Keyboard'', mStates = [''A'' \<mapsto> Ref 1]\<rparr>],
                   states := [1 \<mapsto> \<lparr>State_mBindableName = ''Keyboard/A''\<rparr>],
                   nextRef := 2\<rparr>) (Ref 0))"

text \<open>
  A System with the schemas \<^verbatim>\<open>Default\<close> and \<^verbatim>\<open>Game\<close>, the second one created as the
  default schema.
\<close>

definition sys_two_schemas :: System where
  "sys_two_schemas =
     snd (createActionSchema (snd (createActionSchema System_new ''Default'' False)) ''Game'' True)"

text \<open>A System whose only schema is the automatically created default schema.\<close>

definition sys_default_only :: System where
  "sys_default_only = snd (getDefaultActionSchemaAutoCreate System_new)"

text \<open>A System with the schema \<^verbatim>\<open>Game\<close> and its Trigger action \<^verbatim>\<open>Jump\<close>.\<close>

definition sys_game :: System where
  "sys_game =
     snd (ActionSchema_createAction (snd (createActionSchema System_new ''Game'' False))
            (Ref 0) AT_TRIGGER ''Jump'')"

text \<open>
  A System with a device \<^verbatim>\<open>Wheel\<close> that has a state of the same name, and a schema
  \<^verbatim>\<open>Menu\<close> that has an action of the same name.
\<close>

definition sys_wheel :: System where
  "sys_wheel =
     snd (ActionSchema_createAction
       (snd (createActionSchema
         (snd (addDevice
           (System_new\<lparr>devices := [0 \<mapsto> \<lparr>Device_mName = ''Wheel'', mStates = [''Wheel'' \<mapsto> Ref 1]\<rparr>],
                       states := [1 \<mapsto> \<lparr>State_mBindableName = ''Wheel/Wheel''\<rparr>],
                       nextRef := 2\<rparr>) (Ref 0)))
         ''Menu'' False))
       (Ref 2) AT_TRIGGER ''Menu'')"

text \<open>A System with the empty schema \<^verbatim>\<open>Game\<close>.\<close>

definition sys_game_schema :: System where
  "sys_game_schema = snd (createActionSchema System_new ''Game'' False)"

text \<open>A document whose root element is not \<^verbatim>\<open>schemas\<close>.\<close>

definition doc_no_schemas :: xml_node where
  "doc_no_schemas =
     Node [] [] []
       [Node [] [(''version'', ''1.0''), (''encoding'', ''utf-8'')] [] [],
        Node ''settings'' [] [] [Node ''schema'' [(''name'', ''Menu'')] [] []]]"

text \<open>Binding nodes with and without the attribute \<^verbatim>\<open>optional\<close>.\<close>

definition binding_node_optional0 :: xml_node where
  "binding_node_optional0 =
     Node ''binding'' [(''optional'', ''0'')] [] [Node ''bind'' [] ''Keyboard/A'' []]"

definition binding_node_plain :: xml_node where
  "binding_node_plain =
     Node ''binding'' [] [] [Node ''bind'' [(''role'', ''Positive'')] ''Keyboard/A'' []]"

text \<open>An action node whose first attribute is neither \<^verbatim>\<open>type\<close> nor \<^verbatim>\<open>name\<close>.\<close>

definition action_node_late_type :: xml_node where
  "action_node_late_type =
     Node ''action'' [(''Sensitivity'', ''2''), (''type'', ''Trigger''), (''name'', ''Jump'')] [] []"

text \<open>An action node with an attribute that no Action knows.\<close>

definition action_node_unknown_attr :: xml_node where
  "action_node_unknown_attr =
     Node ''action'' [(''type'', ''Trigger''), (''name'', ''Jump''), (''Colour'', ''red'')] [] []"

text \<open>
  The System \<open>sys_keyboard\<close> after the schema \<^verbatim>\<open>Game\<close> and its Trigger action
  \<^verbatim>\<open>Jump\<close> were created and a binding node with one bind without role, to the state
  \<^verbatim>\<open>Keyboard/A\<close>, was loaded for the action.
\<close>

definition sys_bound :: System where
  "sys_bound =
     snd (processActionBindingXML
       (snd (ActionSchema_createAction (snd (createActionSchema sys_keyboard ''Game'' False))
               (Ref 2) AT_TRIGGER ''Jump''))
       (Some (Node ''binding'' [] [] [Node ''bind'' [] ''Keyboard/A'' []])) (Ref 3))"

text \<open>
  A System with an AnalogAxis action that has one optional Binding with three entries: a
  bound state, a reserved slot and an unresolved placeholder.
\<close>

definition sys_slots :: System where
  "sys_slots =
     sys_keyboard\<lparr>
       actions := [3 \<mapsto> \<lparr>Action_mName = ''Steer'', Action_mBindableName = ''Game/Steer'',
                           actionType = AT_ANALOG_AXIS, properties = [], emulatorProperties = [],
                           mBindings = [Ref 4]\<rparr>],
       bindings := [4 \<mapsto> \<lparr>mOptional = True,
                             mBindables = [(''Positive'', Ref 1), (''Negative'', OnePtr),
                                           (''Mouse/X'', NullPtr)]\<rparr>],
       nextRef := 5\<rparr>"

text \<open>
  A schema node \<^verbatim>\<open>Menu\<close> with an action node without name and the action node
  \<^verbatim>\<open>Back\<close>; a document with a schema node without name before it, and the document
  without that node; a parser that knows these two documents by a key.
\<close>

definition menu_schema_node :: xml_node where
  "menu_schema_node =
     Node ''schema'' [(''name'', ''Menu'')] []
       [Node ''action'' [(''type'', ''Trigger'')] [] [],
        Node ''action'' [(''type'', ''Trigger''), (''name'', ''Back'')] [] []]"

definition doc_unnamed_then_menu :: xml_node where
  "doc_unnamed_then_menu =
     Node [] [] []
       [Node [] [(''version'', ''1.0''), (''encoding'', ''utf-8'')] [] [],
        Node ''schemas'' [] [] [Node ''schema'' [] [] [], menu_schema_node]]"

definition doc_menu :: xml_node where
  "doc_menu =
     Node [] [] []
       [Node [] [(''version'', ''1.0''), (''encoding'', ''utf-8'')] [] [],
        Node ''schemas'' [] [] [menu_schema_node]]"

definition example_parser :: parser where
  "example_parser text =
     (if text = ''unnamed'' then Some doc_unnamed_then_menu
      else if text = ''menu'' then Some doc_menu
      else None)"

section \<open>Properties\<close>

subsection \<open>Strings and positions\<close>

lemma find_from_absent: "c \<notin> set s \<Longrightarrow> find_from s [c] k = None"
  by (induction s arbitrary: k) auto

lemma find_from_first: "c \<notin> set D \<Longrightarrow> find_from (D @ c # S) [c] k = Some (k + length D)"
  by (induction D arbitrary: k) auto

lemma unat_size_type: "n < 2 ^ 64 \<Longrightarrow> unat (of_nat n :: size_type) = n"
  by (simp add: unat_of_nat)

lemma unat_size_type_Suc: "Suc n < 2 ^ 64 \<Longrightarrow> unat (of_nat n + 1 :: size_type) = Suc n"
  using unat_size_type [of "Suc n"] by (simp add: add.commute)

lemma unat_npos: "unat npos = 2 ^ 64 - 1"
  by (simp add: npos_def unsigned_minus_1_eq_mask mask_eq_exp_minus_1)

lemma npos_succ: "npos + 1 = 0"
  by (simp add: npos_def)

text \<open>
  A path whose first separator comes after \<open>D\<close> is split into \<open>D\<close> and the rest.
\<close>

lemma split_path:
  assumes "CHR ''/'' \<notin> set D" and "length (D @ ''/'' @ S) < 2 ^ 64"
  shows "find_str (D @ ''/'' @ S) ''/'' = of_nat (length D)"
    and "substr (D @ ''/'' @ S) 0 (of_nat (length D)) = Inr D"
    and "substr (D @ ''/'' @ S) (of_nat (length D) + 1) npos = Inr S"
proof -
  show "find_str (D @ ''/'' @ S) ''/'' = of_nat (length D)"
    using assms(1) by (simp add: find_str_def find_from_first)
  have d: "length D < 2 ^ 64" "Suc (length D) < 2 ^ 64"
    using assms(2) by simp_all
  show "substr (D @ ''/'' @ S) 0 (of_nat (length D)) = Inr D"
    by (simp add: substr_def unat_size_type [OF d(1)])
  show "substr (D @ ''/'' @ S) (of_nat (length D) + 1) npos = Inr S"
    using assms(2) by (simp add: substr_def unat_size_type_Suc [OF d(2)] unat_npos)
qed

text \<open>Every path with a separator has this form.\<close>

lemma path_with_separator:
  "CHR ''/'' \<in> set path \<Longrightarrow>
   path = takeWhile (\<lambda>c. c \<noteq> CHR ''/'') path @ ''/'' @ tl (dropWhile (\<lambda>c. c \<noteq> CHR ''/'') path) \<and>
   CHR ''/'' \<notin> set (takeWhile (\<lambda>c. c \<noteq> CHR ''/'') path)"
proof (induction path)
  case Nil
  then show ?case by simp
next
  case (Cons c cs)
  then show ?case by (cases "c = CHR ''/''") auto
qed

text \<open>A path without separator: both substrings are the whole path.\<close>

lemma whole_path:
  assumes "CHR ''/'' \<notin> set X" and "length X < 2 ^ 64"
  shows "find_str X ''/'' = npos"
    and "substr X 0 npos = Inr X"
    and "substr X (npos + 1) npos = Inr X"
  using assms by (simp_all add: find_str_def find_from_absent substr_def unat_npos npos_succ)

subsection \<open>Reading the file\<close>

lemma split_at_first:
  "c \<in> set xs \<Longrightarrow>
   xs = takeWhile (\<lambda>x. x \<noteq> c) xs @ c # tl (dropWhile (\<lambda>x. x \<noteq> c) xs)"
  by (induction xs) auto

lemma filter_takeWhile_neq:
  "filter (\<lambda>x. x \<noteq> c) (takeWhile (\<lambda>x. x \<noteq> c) xs) = takeWhile (\<lambda>x. x \<noteq> c) xs"
  by (induction xs) auto

lemma filter_absent: "c \<notin> set xs \<Longrightarrow> filter (\<lambda>x. x \<noteq> c) xs = xs"
  by (induction xs) auto

text \<open>
  On a regular file the read loop ends, with the contents without the line ends; on a
  stream that cannot be read it never ends.
\<close>

lemma read_lines_regular:
  "readable st \<Longrightarrow> \<not> eofbit st \<Longrightarrow>
   read_lines st acc = Some (acc @ filter (\<lambda>c. c \<noteq> CHR 0x0A) (remaining st))"
proof (induction "length (remaining st)" arbitrary: st acc rule: less_induct)
  case less
  show ?case
  proof (cases "CHR 0x0A \<in> set (remaining st)")
    case True
    define line where "line = takeWhile (\<lambda>c. c \<noteq> CHR 0x0A) (remaining st)"
    define rest where "rest = tl (dropWhile (\<lambda>c. c \<noteq> CHR 0x0A) (remaining st))"
    have split: "remaining st = line @ CHR 0x0A # rest"
      unfolding line_def rest_def by (rule split_at_first [OF True])
    have gl: "getline st = (line, st\<lparr>remaining := rest\<rparr>)"
      using True less.prems by (simp add: getline_def line_def rest_def)
    have "length (remaining st) = length line + Suc (length rest)"
      by (subst split) simp
    then have shorter: "length (remaining (st\<lparr>remaining := rest\<rparr>)) < length (remaining st)"
      by simp
    have noline: "filter (\<lambda>c. c \<noteq> CHR 0x0A) line = line"
      unfolding line_def by (rule filter_takeWhile_neq)
    have "read_lines st acc = read_lines (st\<lparr>remaining := rest\<rparr>) (acc @ line)"
      using less.prems(2) by (subst read_lines.simps) (simp add: gl)
    also have "\<dots> = Some ((acc @ line) @ filter (\<lambda>c. c \<noteq> CHR 0x0A) rest)"
      using less.hyps [OF shorter] less.prems by simp
    finally have r: "read_lines st acc = Some ((acc @ line) @ filter (\<lambda>c. c \<noteq> CHR 0x0A) rest)" .
    have "filter (\<lambda>c. c \<noteq> CHR 0x0A) (remaining st) = line @ filter (\<lambda>c. c \<noteq> CHR 0x0A) rest"
      by (subst split) (simp add: noline)
    with r show ?thesis by simp
  next
    case False
    have gl: "getline st = (remaining st, st\<lparr>remaining := [], eofbit := True\<rparr>)"
      using False less.prems by (simp add: getline_def)
    have "read_lines st acc =
          read_lines (st\<lparr>remaining := [], eofbit := True\<rparr>) (acc @ remaining st)"
      using less.prems(2) by (subst read_lines.simps) (simp add: gl)
    also have "\<dots> = Some (acc @ remaining st)"
      by (subst read_lines.simps) simp
    finally show ?thesis using False by (simp add: filter_absent)
  qed
qed

lemma read_lines_returns:
  assumes "read_lines st acc = Some y"
  shows "readable st \<or> eofbit st"
proof (rule read_lines.raw_induct [where P = "\<lambda>st acc y. readable st \<or> eofbit st", OF _ assms])
  fix f :: "ifstream \<Rightarrow> string \<Rightarrow> string option" and myfile input_xml res
  assume IH: "\<And>m i y. f m i = Some y \<Longrightarrow> readable m \<or> eofbit m"
    and body: "(if eofbit myfile then Some input_xml
                else f (snd (getline myfile)) (input_xml @ fst (getline myfile))) = Some res"
  show "readable myfile \<or> eofbit myfile"
  proof (cases "readable myfile \<or> eofbit myfile")
    case True
    then show ?thesis .
  next
    case False
    then have "getline myfile = ([], myfile)" by (simp add: getline_def)
    with body False have "f myfile input_xml = Some res" by simp
    then show ?thesis by (rule IH)
  qed
qed

lemma read_lines_unreadable:
  "\<not> readable st \<Longrightarrow> \<not> eofbit st \<Longrightarrow> read_lines st acc = None"
  using read_lines_returns [of st acc] by (cases "read_lines st acc") auto

lemma loadActionSchemaFromXMLFile_regular:
  "fs (c_str filename) = Some (RegularFile content) \<Longrightarrow>
   loadActionSchemaFromXMLFile parse fs sys filename =
     Some (loadActionSchemaFromXML parse sys (c_str (filter (\<lambda>c. c \<noteq> CHR 0x0A) content)))"
  by (simp add: loadActionSchemaFromXMLFile_def open_ifstream_def read_lines_regular)

lemma loadActionSchemaFromXMLFile_directory:
  "fs (c_str filename) = Some Directory \<Longrightarrow>
   loadActionSchemaFromXMLFile parse fs sys filename = None"
  by (simp add: loadActionSchemaFromXMLFile_def open_ifstream_def read_lines_unreadable)

subsection \<open>The free store\<close>

lemma entries_empty: "RBT.entries (RBT.empty :: (string, ptr) rbt) = []"
  by (simp add: RBT.entries.rep_eq RBT.empty.rep_eq)

lemma fold_release_fields:
  "mActionSchemas (fold release_Action ps s) = mActionSchemas s \<and>
   mDefaultActionSchema (fold release_Action ps s) = mDefaultActionSchema s \<and>
   nextRef (fold release_Action ps s) = nextRef s \<and>
   schemas (fold release_Action ps s) = schemas s"
  by (induction ps arbitrary: s)
     (auto simp: release_Action_def split: ptr.splits option.splits)

lemma destroy_fields:
  assumes "RBT.lookup (mActionSchemas sys) N = Some p" and "schemaAt sys p = Some sch"
  shows "fst (destroyActionSchema sys N) = Inr ()"
    and "mActionSchemas (snd (destroyActionSchema sys N)) = RBT.delete N (mActionSchemas sys)"
    and "mDefaultActionSchema (snd (destroyActionSchema sys N)) =
          (if p = mDefaultActionSchema sys then NullPtr else mDefaultActionSchema sys)"
    and "nextRef (snd (destroyActionSchema sys N)) = nextRef sys"
  using assms
  by (auto simp: destroyActionSchema_def delete_ActionSchema_def schemaAt_def Let_def
      setDefaultActionSchema_def fold_release_fields split: ptr.splits option.splits)

lemma autoCreate_null:
  assumes "mDefaultActionSchema s = NullPtr"
  shows "(RBT.lookup (mActionSchemas s) ''Default'' = None \<longrightarrow>
      fst (getDefaultActionSchemaAutoCreate s) = Inr (Ref (nextRef s)) \<and>
      getActionSchema (snd (getDefaultActionSchemaAutoCreate s)) ''Default'' = Inr (Ref (nextRef s)) \<and>
      mDefaultActionSchema (snd (getDefaultActionSchemaAutoCreate s)) = Ref (nextRef s) \<and>
      schemaAt (snd (getDefaultActionSchemaAutoCreate s)) (Ref (nextRef s)) =
        Some \<lparr>ActionSchema_mName = ''Default'', mActions = RBT.empty\<rparr>) \<and>
   (RBT.lookup (mActionSchemas s) ''Default'' \<noteq> None \<longrightarrow>
      getDefaultActionSchemaAutoCreate s =
        (Inl (OIS_Exception E_Duplicate
           (''Action schema '' @ quote ''Default'' @ '' already exists'')), s))"
  using assms
  by (auto simp: getDefaultActionSchemaAutoCreate_def createActionSchema_def new_ActionSchema_def
      map_insert_def setDefaultActionSchema_def getActionSchema_def schemaAt_def
      getDefaultActionSchema_def Let_def)

lemma sys_keyboard_eq:
  "mDevices sys_keyboard = RBT.insert ''Keyboard'' (Ref 0) RBT.empty"
  "devices sys_keyboard = [0 \<mapsto> \<lparr>Device_mName = ''Keyboard'', mStates = [''A'' \<mapsto> Ref 1]\<rparr>]"
  by (simp_all add: sys_keyboard_def addDevice_def deviceAt_def System_new_def map_insert_def)

lemma sys_two_schemas_eq:
  "sys_two_schemas =
     System_new\<lparr>mActionSchemas :=
                  RBT.insert ''Game'' (Ref 1) (RBT.insert ''Default'' (Ref 0) RBT.empty),
                mDefaultActionSchema := Ref 1,
                schemas := [0 \<mapsto> \<lparr>ActionSchema_mName = ''Default'', mActions = RBT.empty\<rparr>,
                            1 \<mapsto> \<lparr>ActionSchema_mName = ''Game'', mActions = RBT.empty\<rparr>],
                nextRef := 2\<rparr>"
  by (simp add: sys_two_schemas_def createActionSchema_def new_ActionSchema_def map_insert_def
      setDefaultActionSchema_def System_new_def Let_def)

lemma sys_default_only_eq:
  "sys_default_only =
     System_new\<lparr>mActionSchemas := RBT.insert ''Default'' (Ref 0) RBT.empty,
                mDefaultActionSchema := Ref 0,
                schemas := [0 \<mapsto> \<lparr>ActionSchema_mName = ''Default'', mActions = RBT.empty\<rparr>],
                nextRef := 1\<rparr>"
  by (simp add: sys_default_only_def getDefaultActionSchemaAutoCreate_def createActionSchema_def new_ActionSchema_def map_insert_def
      setDefaultActionSchema_def System_new_def Let_def)

lemma sys_game_eq:
  "mActionSchemas sys_game = RBT.insert ''Game'' (Ref 0) RBT.empty"
  "schemas sys_game = [0 \<mapsto> \<lparr>ActionSchema_mName = ''Game'', mActions = RBT.insert ''Jump'' (Ref 1) RBT.empty\<rparr>]"
  by (simp_all add: sys_game_def ActionSchema_createAction_def createActionSchema_def
      new_ActionSchema_def map_insert_def System_new_def Let_def)

lemma sys_wheel_eq:
  "mDevices sys_wheel = RBT.insert ''Wheel'' (Ref 0) RBT.empty"
  "devices sys_wheel = [0 \<mapsto> \<lparr>Device_mName = ''Wheel'', mStates = [''Wheel'' \<mapsto> Ref 1]\<rparr>]"
  "mActionSchemas sys_wheel = RBT.insert ''Menu'' (Ref 2) RBT.empty"
  "schemas sys_wheel = [2 \<mapsto> \<lparr>ActionSchema_mName = ''Menu'', mActions = RBT.insert ''Menu'' (Ref 3) RBT.empty\<rparr>]"
  by (simp_all add: sys_wheel_def ActionSchema_createAction_def createActionSchema_def
      new_ActionSchema_def map_insert_def System_new_def Let_def addDevice_def deviceAt_def)

lemma sys_game_actions:
  "actions sys_game = [1 \<mapsto> \<lparr>Action_mName = ''Jump'', Action_mBindableName = ''Game/Jump'',
      actionType = AT_TRIGGER, properties = [], emulatorProperties = [], mBindings = []\<rparr>]"
  "nextRef sys_game = 2"
  by (simp_all add: sys_game_def ActionSchema_createAction_def createActionSchema_def
      new_ActionSchema_def map_insert_def System_new_def Let_def)

lemma sys_game_schema_eq:
  "sys_game_schema =
     System_new\<lparr>mActionSchemas := RBT.insert ''Game'' (Ref 0) RBT.empty,
                schemas := [0 \<mapsto> \<lparr>ActionSchema_mName = ''Game'', mActions = RBT.empty\<rparr>],
                nextRef := 1\<rparr>"
  by (simp add: sys_game_schema_def createActionSchema_def new_ActionSchema_def map_insert_def
      System_new_def Let_def)

lemma sys_game_from_schema:
  "sys_game = snd (ActionSchema_createAction sys_game_schema (Ref 0) AT_TRIGGER ''Jump'')"
  by (simp add: sys_game_def sys_game_schema_def)

lemma lookupBindable_keyboard_A:
  "mDevices s = RBT.insert ''Keyboard'' (Ref 0) RBT.empty \<Longrightarrow>
   devices s 0 = Some \<lparr>Device_mName = ''Keyboard'', mStates = [''A'' \<mapsto> Ref 1]\<rparr> \<Longrightarrow>
   lookupBindable s ''Keyboard/A'' = Inr (Ref 1)"
  by (simp add: lookupBindable_def lookupState_def find_str_def substr_def hasDevice_def
      getDevice_def Device_hasState_def Device_getState_def deviceAt_def Let_def unat_npos)

lemma sys_keyboard_full:
  "sys_keyboard =
     System_new\<lparr>mDevices := RBT.insert ''Keyboard'' (Ref 0) RBT.empty,
                devices := [0 \<mapsto> \<lparr>Device_mName = ''Keyboard'', mStates = [''A'' \<mapsto> Ref 1]\<rparr>],
                states := [1 \<mapsto> \<lparr>State_mBindableName = ''Keyboard/A''\<rparr>],
                nextRef := 2\<rparr>"
  by (simp add: sys_keyboard_def addDevice_def deviceAt_def System_new_def map_insert_def)

lemma sys_bound_eq:
  "actions sys_bound 3 = Some \<lparr>Action_mName = ''Jump'', Action_mBindableName = ''Game/Jump'',
      actionType = AT_TRIGGER, properties = [], emulatorProperties = [], mBindings = [Ref 4]\<rparr>"
  "bindings sys_bound 4 = Some \<lparr>mOptional = False, mBindables = [([], Ref 1)]\<rparr>"
  "states sys_bound (Suc 0) = Some \<lparr>State_mBindableName = ''Keyboard/A''\<rparr>"
  by (simp_all add: sys_bound_def sys_keyboard_full createActionSchema_def new_ActionSchema_def
      map_insert_def System_new_def Let_def ActionSchema_createAction_def
      processActionBindingXML_def Action_createBinding_def set_mOptional_def first_attribute_def
      first_node_siblings_def processActionBindXML_def Binding_bind_def
      lookupBindable_keyboard_A)

lemma sys_slots_eq:
  "actions sys_slots 3 = Some \<lparr>Action_mName = ''Steer'', Action_mBindableName = ''Game/Steer'',
                           actionType = AT_ANALOG_AXIS, properties = [], emulatorProperties = [],
                           mBindings = [Ref 4]\<rparr>"
  "bindings sys_slots 4 = Some \<lparr>mOptional = True,
                             mBindables = [(''Positive'', Ref 1), (''Negative'', OnePtr),
                                           (''Mouse/X'', NullPtr)]\<rparr>"
  "states sys_slots (Suc 0) = Some \<lparr>State_mBindableName = ''Keyboard/A''\<rparr>"
  by (simp_all add: sys_slots_def sys_keyboard_full System_new_def)

lemma sys_game_full:
  "sys_game =
     System_new\<lparr>mActionSchemas := RBT.insert ''Game'' (Ref 0) RBT.empty,
                schemas := [0 \<mapsto> \<lparr>ActionSchema_mName = ''Game'',
                                   mActions = RBT.insert ''Jump'' (Ref 1) RBT.empty\<rparr>],
                actions := [1 \<mapsto> \<lparr>Action_mName = ''Jump'', Action_mBindableName = ''Game/Jump'',
                                   actionType = AT_TRIGGER, properties = [],
                                   emulatorProperties = [], mBindings = []\<rparr>],
                nextRef := 2\<rparr>"
  by (simp add: sys_game_def ActionSchema_createAction_def createActionSchema_def
      new_ActionSchema_def map_insert_def System_new_def Let_def)

subsection \<open>Name resolution of states\<close>

text \<open>
  Claim C1.  For every path \<open>D/S\<close>, \<open>D\<close> being the part before the first separator
  (every path with a separator is of this form, and fits a string): if the System has a
  device named \<open>D\<close> and that device has a state named \<open>S\<close>, \<open>lookupState\<close> returns
  the State that \<open>getDevice(D).getState(S)\<close> returns; if the device does not exist, or
  the device exists and has no such state, \<open>lookupState\<close> returns null and raises
  nothing.
\<close>

theorem lookupState_device_state_path:
  assumes "CHR ''/'' \<notin> set D" and "length (D @ ''/'' @ S) < 2 ^ 64"
  shows "(getDevice sys D = Inr dev \<and> Device_getState sys dev S = Inr st \<longrightarrow>
            lookupState sys (D @ ''/'' @ S) = Inr st) \<and>
         (\<not> hasDevice sys D \<longrightarrow> lookupState sys (D @ ''/'' @ S) = Inr NullPtr) \<and>
         (getDevice sys D = Inr dev \<and> Device_hasState sys dev S = Inr False \<longrightarrow>
            lookupState sys (D @ ''/'' @ S) = Inr NullPtr)"
proof -
  note sp = split_path [OF assms, simplified]
  have found: "lookupState sys (D @ ''/'' @ S) = Inr st"
    if "getDevice sys D = Inr dev" and "Device_getState sys dev S = Inr st"
    using that
    by (auto simp: lookupState_def sp Let_def hasDevice_def getDevice_def Device_hasState_def
        Device_getState_def split: option.splits)
  have nodev: "lookupState sys (D @ ''/'' @ S) = Inr NullPtr" if "\<not> hasDevice sys D"
    using that by (simp add: lookupState_def sp Let_def)
  have nostate: "lookupState sys (D @ ''/'' @ S) = Inr NullPtr"
    if "getDevice sys D = Inr dev" and "Device_hasState sys dev S = Inr False"
    using that
    by (auto simp: lookupState_def sp Let_def hasDevice_def getDevice_def split: option.splits)
  from found nodev nostate show ?thesis by blast
qed

theorem lookupState_device_state_path_witness:
  "lookupState sys_keyboard ''Keyboard/A'' = Inr (Ref 1) \<and>
   lookupState sys_keyboard ''Mouse/A'' = Inr NullPtr \<and>
   lookupState sys_keyboard ''Keyboard/B'' = Inr NullPtr"
  using lookupState_device_state_path [of "''Keyboard''" "''A''" sys_keyboard "Ref 0" "Ref 1"]
    lookupState_device_state_path [of "''Mouse''" "''A''" sys_keyboard "Ref 0" "Ref 1"]
    lookupState_device_state_path [of "''Keyboard''" "''B''" sys_keyboard "Ref 0" "Ref 1"]
  by (simp add: sys_keyboard_eq getDevice_def hasDevice_def Device_getState_def
      Device_hasState_def deviceAt_def)

subsection \<open>The schema registry\<close>

text \<open>
  Claim C7.  For every name \<open>N\<close>: when a schema named \<open>N\<close> is already in the registry,
  \<open>createActionSchema(N)\<close> fails with a Duplicate error and leaves the System, and so the
  registry, as it was; when no schema is named \<open>N\<close>, the call succeeds, registers the
  new schema under \<open>N\<close> and returns it.
\<close>

theorem createActionSchema_duplicate_or_registered:
  "(hasActionSchema sys N \<longrightarrow>
      createActionSchema sys N d =
        (Inl (OIS_Exception E_Duplicate
           (''Action schema '' @ quote N @ '' already exists'')), sys)) \<and>
   (\<not> hasActionSchema sys N \<longrightarrow>
      fst (createActionSchema sys N d) = Inr (Ref (nextRef sys)) \<and>
      mActionSchemas (snd (createActionSchema sys N d)) =
        RBT.insert N (Ref (nextRef sys)) (mActionSchemas sys) \<and>
      getActionSchema (snd (createActionSchema sys N d)) N = Inr (Ref (nextRef sys)) \<and>
      schemaAt (snd (createActionSchema sys N d)) (Ref (nextRef sys)) =
        Some \<lparr>ActionSchema_mName = N, mActions = RBT.empty\<rparr>)"
  by (auto simp: hasActionSchema_def createActionSchema_def new_ActionSchema_def map_insert_def
      setDefaultActionSchema_def getActionSchema_def schemaAt_def Let_def)

theorem createActionSchema_duplicate_or_registered_witness:
  "createActionSchema (snd (createActionSchema System_new ''Game'' False)) ''Game'' False =
     (Inl (OIS_Exception E_Duplicate (''Action schema '' @ quote ''Game'' @ '' already exists'')),
      snd (createActionSchema System_new ''Game'' False)) \<and>
   fst (createActionSchema System_new ''Game'' False) = Inr (Ref 0) \<and>
   getActionSchema (snd (createActionSchema System_new ''Game'' False)) ''Game'' = Inr (Ref 0)"
  using createActionSchema_duplicate_or_registered [of System_new "''Game''" False]
    createActionSchema_duplicate_or_registered
      [of "snd (createActionSchema System_new ''Game'' False)" "''Game''" False]
  by (simp add: hasActionSchema_def System_new_def)

text \<open>
  Claim C6, as the code has it.  \<open>destroyActionSchema\<close> of a registered, live schema
  succeeds and removes the schema from the registry; the default reference becomes null
  if the destroyed schema was the default and keeps its value otherwise (it is never
  reassigned to another schema).  After the default schema was destroyed,
  \<open>getDefaultActionSchemaAutoCreate\<close> creates, registers, makes default and returns a new
  schema named \<^verbatim>\<open>Default\<close> when no schema of that name is left in the registry, and
  fails with a Duplicate error when one is.
\<close>

theorem destroyActionSchema_default_cleared:
  assumes "RBT.lookup (mActionSchemas sys) N = Some p" and "schemaAt sys p = Some sch"
  shows "fst (destroyActionSchema sys N) = Inr () \<and>
         mActionSchemas (snd (destroyActionSchema sys N)) = RBT.delete N (mActionSchemas sys) \<and>
         \<not> hasActionSchema (snd (destroyActionSchema sys N)) N \<and>
         mDefaultActionSchema (snd (destroyActionSchema sys N)) =
           (if p = mDefaultActionSchema sys then NullPtr else mDefaultActionSchema sys) \<and>
         (p = mDefaultActionSchema sys \<and>
          \<not> hasActionSchema (snd (destroyActionSchema sys N)) ''Default'' \<longrightarrow>
            fst (getDefaultActionSchemaAutoCreate (snd (destroyActionSchema sys N))) =
              Inr (Ref (nextRef sys)) \<and>
            getActionSchema
              (snd (getDefaultActionSchemaAutoCreate (snd (destroyActionSchema sys N)))) ''Default'' =
              Inr (Ref (nextRef sys)) \<and>
            mDefaultActionSchema
              (snd (getDefaultActionSchemaAutoCreate (snd (destroyActionSchema sys N)))) =
              Ref (nextRef sys) \<and>
            schemaAt
              (snd (getDefaultActionSchemaAutoCreate (snd (destroyActionSchema sys N))))
              (Ref (nextRef sys)) =
              Some \<lparr>ActionSchema_mName = ''Default'', mActions = RBT.empty\<rparr>) \<and>
         (p = mDefaultActionSchema sys \<and>
          hasActionSchema (snd (destroyActionSchema sys N)) ''Default'' \<longrightarrow>
            getDefaultActionSchemaAutoCreate (snd (destroyActionSchema sys N)) =
              (Inl (OIS_Exception E_Duplicate
                 (''Action schema '' @ quote ''Default'' @ '' already exists'')),
               snd (destroyActionSchema sys N)))"
proof -
  let ?s = "snd (destroyActionSchema sys N)"
  note d = destroy_fields [OF assms]
  have gone: "\<not> hasActionSchema ?s N"
    by (simp add: hasActionSchema_def d(2))
  have auto_new: "mDefaultActionSchema ?s = NullPtr" if "p = mDefaultActionSchema sys"
    using that by (simp add: d(3))
  show ?thesis
    using d(1) d(2) d(3) gone autoCreate_null [of ?s] auto_new
    by (simp add: hasActionSchema_def d(4))
qed

theorem destroyActionSchema_default_cleared_witness:
  "fst (getDefaultActionSchemaAutoCreate (snd (destroyActionSchema sys_default_only ''Default''))) =
     Inr (Ref 1) \<and>
   mDefaultActionSchema (snd (destroyActionSchema sys_default_only ''Default'')) = NullPtr \<and>
   getActionSchema (snd (getDefaultActionSchemaAutoCreate (snd (destroyActionSchema sys_default_only ''Default'')))) ''Default'' = Inr (Ref 1) \<and>
   getDefaultActionSchemaAutoCreate (snd (destroyActionSchema sys_two_schemas ''Game'')) =
     (Inl (OIS_Exception E_Duplicate (''Action schema '' @ quote ''Default'' @ '' already exists'')),
      snd (destroyActionSchema sys_two_schemas ''Game''))"
  using destroyActionSchema_default_cleared [of sys_default_only "''Default''" "Ref 0"
      "\<lparr>ActionSchema_mName = ''Default'', mActions = RBT.empty\<rparr>"]
    destroyActionSchema_default_cleared [of sys_two_schemas "''Game''" "Ref 1"
      "\<lparr>ActionSchema_mName = ''Game'', mActions = RBT.empty\<rparr>"]
  by (simp add: sys_default_only_eq sys_two_schemas_eq System_new_def schemaAt_def hasActionSchema_def)

text \<open>
  With the schemas \<^verbatim>\<open>Default\<close> and \<^verbatim>\<open>Game\<close>, the second one being the default:
  destroying \<^verbatim>\<open>Game\<close> clears the default reference, and the next
  \<open>getDefaultActionSchemaAutoCreate\<close> does not return a schema, it raises the Duplicate
  error of \<open>createActionSchema\<close>.
\<close>

theorem destroy_default_autocreate_counterexample:
  "getActionSchema sys_two_schemas ''Game'' = Inr (Ref 1) \<and>
   mDefaultActionSchema sys_two_schemas = Ref 1 \<and>
   fst (destroyActionSchema sys_two_schemas ''Game'') = Inr () \<and>
   mDefaultActionSchema (snd (destroyActionSchema sys_two_schemas ''Game'')) = NullPtr \<and>
   fst (getDefaultActionSchemaAutoCreate (snd (destroyActionSchema sys_two_schemas ''Game''))) =
     Inl (OIS_Exception E_Duplicate (''Action schema '' @ quote ''Default'' @ '' already exists''))"
  by (simp add: sys_two_schemas_eq getActionSchema_def destroyActionSchema_def
      delete_ActionSchema_def setDefaultActionSchema_def System_new_def Let_def
      getDefaultActionSchemaAutoCreate_def createActionSchema_def entries_empty schemaAt_def)


subsection \<open>Name resolution of actions\<close>

text \<open>
  Claim C8.  For every path \<open>Schema/Action\<close>, the schema name being the part before
  the first separator: \<open>lookupAction\<close> returns the named Action when the schema and the
  action exist, whatever the flag; when the schema is missing, or exists without that
  action, it returns null if \<open>throwOnMissing\<close> is false and raises a general failure if
  it is true.
\<close>

theorem lookupAction_schema_action_path:
  assumes "CHR ''/'' \<notin> set Sn" and "length (Sn @ ''/'' @ An) < 2 ^ 64"
  shows "(getActionSchema sys Sn = Inr sch \<and> ActionSchema_getAction sys sch An = Inr a \<longrightarrow>
            lookupAction sys (Sn @ ''/'' @ An) t = Inr a) \<and>
         (\<not> hasActionSchema sys Sn \<longrightarrow>
            lookupAction sys (Sn @ ''/'' @ An) False = Inr NullPtr \<and>
            lookupAction sys (Sn @ ''/'' @ An) True =
              Inl (OIS_Exception E_General (''Action schema '' @ quote Sn @ '' not found''))) \<and>
         (getActionSchema sys Sn = Inr sch \<and> ActionSchema_hasAction sys sch An = Inr False \<longrightarrow>
            lookupAction sys (Sn @ ''/'' @ An) False = Inr NullPtr \<and>
            lookupAction sys (Sn @ ''/'' @ An) True =
              Inl (OIS_Exception E_General
                (''Action '' @ quote An @ '' in schema '' @ quote Sn @ '' not found'')))"
proof -
  note sp = split_path [OF assms, simplified]
  have found: "lookupAction sys (Sn @ ''/'' @ An) t = Inr a"
    if "getActionSchema sys Sn = Inr sch" and "ActionSchema_getAction sys sch An = Inr a"
    using that
    by (auto simp: lookupAction_def sp Let_def hasActionSchema_def getActionSchema_def
        ActionSchema_hasAction_def ActionSchema_getAction_def split: option.splits)
  have noschema:
    "lookupAction sys (Sn @ ''/'' @ An) False = Inr NullPtr \<and>
     lookupAction sys (Sn @ ''/'' @ An) True =
       Inl (OIS_Exception E_General (''Action schema '' @ quote Sn @ '' not found''))"
    if "\<not> hasActionSchema sys Sn"
    using that by (simp add: lookupAction_def sp Let_def)
  have noaction:
    "lookupAction sys (Sn @ ''/'' @ An) False = Inr NullPtr \<and>
     lookupAction sys (Sn @ ''/'' @ An) True =
       Inl (OIS_Exception E_General
         (''Action '' @ quote An @ '' in schema '' @ quote Sn @ '' not found''))"
    if "getActionSchema sys Sn = Inr sch" and "ActionSchema_hasAction sys sch An = Inr False"
    using that
    by (auto simp: lookupAction_def sp Let_def hasActionSchema_def getActionSchema_def
        split: option.splits)
  from found noschema noaction show ?thesis by blast
qed

theorem lookupAction_schema_action_path_witness:
  "lookupAction sys_game ''Game/Jump'' True = Inr (Ref 1) \<and>
   lookupAction sys_game ''Game/Jump'' False = Inr (Ref 1) \<and>
   lookupAction sys_game ''Menu/Jump'' False = Inr NullPtr \<and>
   lookupAction sys_game ''Menu/Jump'' True =
     Inl (OIS_Exception E_General (''Action schema '' @ quote ''Menu'' @ '' not found'')) \<and>
   lookupAction sys_game ''Game/Fire'' False = Inr NullPtr \<and>
   lookupAction sys_game ''Game/Fire'' True =
     Inl (OIS_Exception E_General
       (''Action '' @ quote ''Fire'' @ '' in schema '' @ quote ''Game'' @ '' not found''))"
  using lookupAction_schema_action_path [of "''Game''" "''Jump''" sys_game "Ref 0" "Ref 1" True]
    lookupAction_schema_action_path [of "''Game''" "''Jump''" sys_game "Ref 0" "Ref 1" False]
    lookupAction_schema_action_path [of "''Menu''" "''Jump''" sys_game "Ref 0" "Ref 1" False]
    lookupAction_schema_action_path [of "''Game''" "''Fire''" sys_game "Ref 0" "Ref 1" False]
  by (simp add: sys_game_eq getActionSchema_def hasActionSchema_def ActionSchema_getAction_def
      ActionSchema_hasAction_def schemaAt_def)

subsection \<open>Paths without separator\<close>

text \<open>
  Claim C9.  For every path \<open>X\<close> that contains no separator (and fits a string), the
  position that \<open>find\<close> returns is \<open>npos\<close>, the position after it wraps to 0, and both
  substrings are the whole path: \<open>lookupState\<close> searches the device named \<open>X\<close> for a
  state named \<open>X\<close>, and \<open>lookupAction\<close> searches the schema named \<open>X\<close> for an action
  named \<open>X\<close>.  When the registered device or schema of that name is a live object,
  \<open>lookupState\<close> and \<open>lookupAction\<close> with \<open>throwOnMissing\<close> false return a value and
  raise nothing.
\<close>

theorem lookup_without_separator:
  assumes "CHR ''/'' \<notin> set X" and "length X < 2 ^ 64"
  shows "find_str X ''/'' = npos \<and> find_str X ''/'' + 1 = 0 \<and>
         substr X 0 (find_str X ''/'') = Inr X \<and>
         substr X (find_str X ''/'' + 1) npos = Inr X \<and>
         lookupState sys X =
           (if hasDevice sys X then
              (case getDevice sys X of
                 Inl e \<Rightarrow> Inl e
               | Inr dev \<Rightarrow>
                   (case Device_hasState sys dev X of
                      Inl e \<Rightarrow> Inl e
                    | Inr has \<Rightarrow> if has then Device_getState sys dev X else Inr NullPtr))
            else Inr NullPtr) \<and>
         lookupAction sys X t =
           (if hasActionSchema sys X then
              (case getActionSchema sys X of
                 Inl e \<Rightarrow> Inl e
               | Inr schema \<Rightarrow>
                   (case ActionSchema_hasAction sys schema X of
                      Inl e \<Rightarrow> Inl e
                    | Inr has \<Rightarrow>
                        if has then ActionSchema_getAction sys schema X
                        else if t then
                          Inl (OIS_Exception E_General
                            (''Action '' @ quote X @ '' in schema '' @ quote X @ '' not found''))
                        else Inr NullPtr))
            else if t then
              Inl (OIS_Exception E_General (''Action schema '' @ quote X @ '' not found''))
            else Inr NullPtr) \<and>
         ((\<forall>dev. RBT.lookup (mDevices sys) X = Some dev \<longrightarrow> deviceAt sys dev \<noteq> None) \<longrightarrow>
            \<not> isl (lookupState sys X)) \<and>
         ((\<forall>sch. RBT.lookup (mActionSchemas sys) X = Some sch \<longrightarrow> schemaAt sys sch \<noteq> None) \<longrightarrow>
            \<not> isl (lookupAction sys X False))"
proof -
  note wp = whole_path [OF assms]
  have st: "lookupState sys X =
           (if hasDevice sys X then
              (case getDevice sys X of
                 Inl e \<Rightarrow> Inl e
               | Inr dev \<Rightarrow>
                   (case Device_hasState sys dev X of
                      Inl e \<Rightarrow> Inl e
                    | Inr has \<Rightarrow> if has then Device_getState sys dev X else Inr NullPtr))
            else Inr NullPtr)"
    by (simp add: lookupState_def wp Let_def cong: sum.case_cong)
  have ac: "lookupAction sys X t =
           (if hasActionSchema sys X then
              (case getActionSchema sys X of
                 Inl e \<Rightarrow> Inl e
               | Inr schema \<Rightarrow>
                   (case ActionSchema_hasAction sys schema X of
                      Inl e \<Rightarrow> Inl e
                    | Inr has \<Rightarrow>
                        if has then ActionSchema_getAction sys schema X
                        else if t then
                          Inl (OIS_Exception E_General
                            (''Action '' @ quote X @ '' in schema '' @ quote X @ '' not found''))
                        else Inr NullPtr))
            else if t then
              Inl (OIS_Exception E_General (''Action schema '' @ quote X @ '' not found''))
            else Inr NullPtr)" for t
    by (simp add: lookupAction_def wp Let_def cong: sum.case_cong)
  have st_ok: "\<not> isl (lookupState sys X)"
    if "\<forall>dev. RBT.lookup (mDevices sys) X = Some dev \<longrightarrow> deviceAt sys dev \<noteq> None"
    using that
    by (auto simp: st hasDevice_def getDevice_def Device_hasState_def Device_getState_def
        split: option.splits)
  have ac_ok: "\<not> isl (lookupAction sys X False)"
    if "\<forall>sch. RBT.lookup (mActionSchemas sys) X = Some sch \<longrightarrow> schemaAt sys sch \<noteq> None"
    using that
    by (auto simp: ac hasActionSchema_def getActionSchema_def ActionSchema_hasAction_def
        ActionSchema_getAction_def split: option.splits)
  show ?thesis
    using st ac st_ok ac_ok by (simp add: wp npos_succ)
qed

theorem lookup_without_separator_witness:
  "lookupState sys_wheel ''Wheel'' = Inr (Ref 1) \<and>
   lookupAction sys_wheel ''Menu'' False = Inr (Ref 3) \<and>
   lookupAction sys_wheel ''Wheel'' False = Inr NullPtr \<and>
   lookupState sys_wheel ''Menu'' = Inr NullPtr"
  using lookup_without_separator [of "''Wheel''" sys_wheel False]
    lookup_without_separator [of "''Menu''" sys_wheel False]
  by (simp add: sys_wheel_eq hasDevice_def getDevice_def Device_hasState_def Device_getState_def
      deviceAt_def hasActionSchema_def getActionSchema_def ActionSchema_hasAction_def
      ActionSchema_getAction_def schemaAt_def)

subsection \<open>Loading\<close>

text \<open>
  Claim C2.  For every input that parses to a document without a \<^verbatim>\<open>schemas\<close> node
  under its root, loading returns the status 0, raises nothing and leaves the System, and
  so its schema registry, exactly as it was.
\<close>

theorem load_without_schemas_root:
  assumes "parse xmlContent = Some doc"
    and "\<forall>c \<in> set (node_children doc). node_name c \<noteq> ''schemas''"
  shows "loadActionSchemaFromXML parse sys xmlContent = (Inr 0, sys)"
proof -
  have "find (\<lambda>c. node_name c = ''schemas'') (node_children doc) = None"
    using assms(2) by (simp add: find_None_iff)
  with assms(1) show ?thesis
    by (simp add: loadActionSchemaFromXML_def)
qed

theorem load_without_schemas_root_witness:
  "loadActionSchemaFromXML (\<lambda>text. Some doc_no_schemas) sys_game ''<settings/>'' = (Inr 0, sys_game)"
  using load_without_schemas_root [of "\<lambda>text. Some doc_no_schemas" "''<settings/>''" doc_no_schemas sys_game]
  by (simp add: doc_no_schemas_def)

lemma for_each_null_action_binding:
  "for_each (\<lambda>s child. processActionBindingXML s (Some child) NullPtr) cs sys = (Inr (), sys)"
  by (induction cs) (simp_all add: processActionBindingXML_def)

lemma for_each_null_action_bind:
  "for_each (\<lambda>s child. processActionBindXML s (Some child) b NullPtr) cs sys = (Inr (), sys)"
  by (induction cs) (simp_all add: processActionBindXML_def)

lemma processAttributes_no_name:
  "\<forall>a \<in> set attrs. fst a \<noteq> ''name'' \<Longrightarrow>
   processAttributes schema attrs atype [] NullPtr sys = (Inr NullPtr, sys)"
  by (induction attrs arbitrary: atype) (simp_all add: Let_def)

lemma processActionXML_no_name:
  assumes "\<forall>a \<in> set (node_attributes n). fst a \<noteq> ''name''"
  shows "processActionXML sys (Some n) schema = (Inr 0, sys)"
  by (simp add: processActionXML_def processAttributes_no_name [OF assms]
      for_each_null_action_binding for_each_null_action_bind)

lemma first_attribute_None: "first_attribute n k = None \<longleftrightarrow> (\<forall>a \<in> set (node_attributes n). fst a \<noteq> k)"
  by (auto simp: first_attribute_def find_None_iff)

lemma for_each_append:
  "for_each f (xs @ ys) s =
     (case for_each f xs s of (Inl e, s1) \<Rightarrow> (Inl e, s1) | (Inr u, s1) \<Rightarrow> for_each f ys s1)"
  by (induction xs arbitrary: s) (auto split: prod.splits sum.splits)

lemma for_each_skip:
  assumes "\<And>s. f s n = (Inr r, s)"
  shows "for_each f (pre @ n # post) s = for_each f (pre @ post) s"
  by (simp add: for_each_append assms cong: prod.case_cong sum.case_cong)

text \<open>
  Claim C5, as the code has it.  Loading from a path whose file cannot be opened returns
  1.  For a node without \<^verbatim>\<open>name\<close> attribute, the routine for schema nodes returns the
  code 2, whereas the routine for action nodes returns 0; in both cases the System is
  unchanged and the loop over the nodes goes on with the siblings as if the node were not
  there.  The top-level load call still returns 0: a document with a schema node without
  name loads exactly as the document without that node does, with the status 0 and the
  System that the other nodes give, and a schema node with an action node without name
  loads as it does without that action node.
\<close>

theorem load_status_codes:
  "(fs (c_str filename) = None \<longrightarrow>
      loadActionSchemaFromXMLFile parse fs sys filename = Some (Inr 1, sys)) \<and>
   (first_attribute n ''name'' = None \<longrightarrow>
      processSchemaXML sys (Some n) = (Inr 2, sys) \<and>
      processActionXML sys (Some n) schema = (Inr 0, sys) \<and>
      for_each (\<lambda>s child. processSchemaXML s (Some child)) (pre @ n # post) sys =
        for_each (\<lambda>s child. processSchemaXML s (Some child)) (pre @ post) sys \<and>
      for_each (\<lambda>s child. processActionXML s (Some child) schema) (pre @ n # post) sys =
        for_each (\<lambda>s child. processActionXML s (Some child) schema) (pre @ post) sys \<and>
      (parse x1 = Some d1 \<and> parse x2 = Some d2 \<and>
       find (\<lambda>c. node_name c = ''schemas'') (node_children d1) = Some r1 \<and>
       find (\<lambda>c. node_name c = ''schemas'') (node_children d2) = Some r2 \<and>
       first_node_siblings r1 ''schema'' = pre @ n # post \<and>
       first_node_siblings r2 ''schema'' = pre @ post \<longrightarrow>
         loadActionSchemaFromXML parse sys x1 = loadActionSchemaFromXML parse sys x2) \<and>
      (parse x1 = Some d1 \<and>
       find (\<lambda>c. node_name c = ''schemas'') (node_children d1) = Some r1 \<and>
       first_node_siblings r1 ''schema'' = pre @ n # post \<and>
       fst (for_each (\<lambda>s child. processSchemaXML s (Some child)) (pre @ post) sys) = Inr () \<longrightarrow>
         loadActionSchemaFromXML parse sys x1 =
           (Inr 0, snd (for_each (\<lambda>s child. processSchemaXML s (Some child)) (pre @ post) sys))) \<and>
      (first_attribute s1 ''name'' = first_attribute s2 ''name'' \<and>
       first_node_siblings s1 ''action'' = pre @ n # post \<and>
       first_node_siblings s2 ''action'' = pre @ post \<longrightarrow>
         processSchemaXML sys (Some s1) = processSchemaXML sys (Some s2))) \<and>
   (fst (loadActionSchemaFromXML parse sys xmlContent) = Inr status \<longrightarrow> status = 0)"
proof -
  have nofile: "loadActionSchemaFromXMLFile parse fs sys filename = Some (Inr 1, sys)"
    if "fs (c_str filename) = None"
    using that by (simp add: loadActionSchemaFromXMLFile_def open_ifstream_def)
  have top: "status = 0" if "fst (loadActionSchemaFromXML parse sys xmlContent) = Inr status"
    using that
    by (auto simp: loadActionSchemaFromXML_def split: option.splits prod.splits sum.splits)
  have nameless: ?thesis if nn: "first_attribute n ''name'' = None"
  proof -
    have schema2: "processSchemaXML s (Some n) = (Inr 2, s)" for s
      using nn by (simp add: processSchemaXML_def)
    have action0: "processActionXML s (Some n) sc = (Inr 0, s)" for s sc
      using nn by (simp add: processActionXML_no_name first_attribute_None)
    have loop_s: "for_each (\<lambda>s child. processSchemaXML s (Some child)) (pre @ n # post) s =
        for_each (\<lambda>s child. processSchemaXML s (Some child)) (pre @ post) s" for s
      by (rule for_each_skip) (rule schema2)
    have loop_a: "for_each (\<lambda>s child. processActionXML s (Some child) sc) (pre @ n # post) s =
        for_each (\<lambda>s child. processActionXML s (Some child) sc) (pre @ post) s" for s sc
      by (rule for_each_skip) (rule action0)
    have docs: "loadActionSchemaFromXML parse sys x1 = loadActionSchemaFromXML parse sys x2"
      if "parse x1 = Some d1" "parse x2 = Some d2"
        "find (\<lambda>c. node_name c = ''schemas'') (node_children d1) = Some r1"
        "find (\<lambda>c. node_name c = ''schemas'') (node_children d2) = Some r2"
        "first_node_siblings r1 ''schema'' = pre @ n # post"
        "first_node_siblings r2 ''schema'' = pre @ post"
      using that by (simp add: loadActionSchemaFromXML_def loop_s)
    have doc0: "loadActionSchemaFromXML parse sys x1 =
           (Inr 0, snd (for_each (\<lambda>s child. processSchemaXML s (Some child)) (pre @ post) sys))"
      if "parse x1 = Some d1"
        "find (\<lambda>c. node_name c = ''schemas'') (node_children d1) = Some r1"
        "first_node_siblings r1 ''schema'' = pre @ n # post"
        "fst (for_each (\<lambda>s child. processSchemaXML s (Some child)) (pre @ post) sys) = Inr ()"
      using that
      by (cases "for_each (\<lambda>s child. processSchemaXML s (Some child)) (pre @ post) sys")
         (simp add: loadActionSchemaFromXML_def loop_s)
    have schemas: "processSchemaXML sys (Some s1) = processSchemaXML sys (Some s2)"
      if "first_attribute s1 ''name'' = first_attribute s2 ''name''"
        "first_node_siblings s1 ''action'' = pre @ n # post"
        "first_node_siblings s2 ''action'' = pre @ post"
      using that
      by (simp add: processSchemaXML_def loop_a Let_def
          cong: option.case_cong prod.case_cong sum.case_cong)
    show ?thesis
      using nofile top schema2 action0 loop_s loop_a docs doc0 schemas by simp
  qed
  show ?thesis
    using nofile top nameless by blast
qed


theorem load_status_codes_witness:
  "loadActionSchemaFromXMLFile example_parser Map.empty sys_game ''input.xml'' =
     Some (Inr 1, sys_game) \<and>
   processSchemaXML sys_game (Some (Node ''schema'' [] [] [])) = (Inr 2, sys_game) \<and>
   processActionXML sys_game (Some (Node ''action'' [(''type'', ''Trigger'')] [] [])) (Ref 0) =
     (Inr 0, sys_game) \<and>
   loadActionSchemaFromXML example_parser sys_game ''unnamed'' =
     loadActionSchemaFromXML example_parser sys_game ''menu'' \<and>
   loadActionSchemaFromXML example_parser sys_game ''unnamed'' =
     (Inr 0,
      snd (ActionSchema_createAction (snd (createActionSchema sys_game ''Menu'' False))
             (Ref 2) AT_TRIGGER ''Back'')) \<and>
   processSchemaXML sys_game (Some menu_schema_node) =
     processSchemaXML sys_game
       (Some (Node ''schema'' [(''name'', ''Menu'')] []
                [Node ''action'' [(''type'', ''Trigger''), (''name'', ''Back'')] [] []]))"
  using load_status_codes [where fs = Map.empty and filename = "''input.xml''"
      and parse = example_parser and sys = sys_game and n = "Node ''schema'' [] [] []"
      and schema = "Ref 0" and pre = "[]" and post = "[menu_schema_node]"
      and ?x1.0 = "''unnamed''" and ?d1.0 = doc_unnamed_then_menu
      and ?r1.0 = "Node ''schemas'' [] [] [Node ''schema'' [] [] [], menu_schema_node]"
      and ?x2.0 = "''menu''" and ?d2.0 = doc_menu
      and ?r2.0 = "Node ''schemas'' [] [] [menu_schema_node]"
      and ?s1.0 = "Node ''schema'' [] [] []" and ?s2.0 = "Node ''schema'' [] [] []"
      and xmlContent = "''menu''" and status = 0]
    load_status_codes [where fs = Map.empty and filename = "''input.xml''"
      and parse = example_parser and sys = sys_game
      and n = "Node ''action'' [(''type'', ''Trigger'')] [] []"
      and schema = "Ref 0" and pre = "[]"
      and post = "[Node ''action'' [(''type'', ''Trigger''), (''name'', ''Back'')] [] []]"
      and ?x1.0 = "[]" and ?x2.0 = "[]"
      and ?s1.0 = menu_schema_node
      and ?s2.0 = "Node ''schema'' [(''name'', ''Menu'')] []
                [Node ''action'' [(''type'', ''Trigger''), (''name'', ''Back'')] [] []]"
      and xmlContent = "''menu''" and status = 0]
  by (auto simp: example_parser_def doc_unnamed_then_menu_def doc_menu_def menu_schema_node_def
      first_node_siblings_def first_attribute_def processSchemaXML_def processActionXML_def
      hasActionSchema_def sys_game_eq sys_game_actions createActionSchema_def
      new_ActionSchema_def map_insert_def createActionOfType_def ActionSchema_createAction_def
      Let_def)

text \<open>
  An action node that has a \<^verbatim>\<open>type\<close> but no \<^verbatim>\<open>name\<close>: the routine for action nodes
  returns 0, not 2.
\<close>

theorem action_without_name_status_counterexample:
  "first_attribute (Node ''action'' [(''type'', ''Trigger'')] [] []) ''name'' = None \<and>
   processActionXML sys_game (Some (Node ''action'' [(''type'', ''Trigger'')] [] [])) (Ref 0) =
     (Inr 0, sys_game)"
  by (simp add: first_attribute_def processActionXML_def Let_def createActionOfType_def first_node_siblings_def)

lemma for_each_preserves:
  assumes "\<And>s c. g (snd (f s c)) = g s"
  shows "g (snd (for_each f cs s)) = g s"
proof (induction cs arbitrary: s)
  case Nil
  show ?case by simp
next
  case (Cons c cs)
  show ?case
  proof (cases "f s c")
    case (Pair r s1)
    have s1: "g s1 = g s" using assms [of s c] Pair by simp
    show ?thesis
    proof (cases r)
      case (Inl e)
      with Pair s1 show ?thesis by simp
    next
      case (Inr v)
      with Pair s1 Cons.IH [of s1] show ?thesis by simp
    qed
  qed
qed

lemma Binding_bind_preserves:
  "map_option mOptional (bindings (snd (Binding_bind s b target role)) k) =
     map_option mOptional (bindings s k) \<and>
   actions (snd (Binding_bind s b target role)) = actions s"
  by (auto simp: Binding_bind_def split: ptr.splits option.splits sum.splits)

lemma snd_status:
  "snd (case r of (Inl e, s1) \<Rightarrow> (Inl e, s1) | (Inr x, s1) \<Rightarrow> (Inr c, s1)) = snd r"
  by (auto split: prod.splits sum.splits)

lemma processActionBindXML_preserves:
  assumes "b \<noteq> NullPtr"
  shows "(map_option mOptional (bindings (snd (processActionBindXML s (Some c) b action)) k),
          actions (snd (processActionBindXML s (Some c) b action))) =
         (map_option mOptional (bindings s k), actions s)"
proof (cases "action = NullPtr")
  case True
  then show ?thesis by (simp add: processActionBindXML_def)
next
  case False
  define role where "role = (case first_attribute c ''role'' of None \<Rightarrow> [] | Some x \<Rightarrow> snd x)"
  have "snd (processActionBindXML s (Some c) b action) = snd (Binding_bind s b (node_value c) role)"
    using assms False
    by (cases "role = []") (simp_all add: processActionBindXML_def Let_def snd_status role_def)
  then show ?thesis
    using Binding_bind_preserves [of s b "node_value c" role k] by simp
qed

text \<open>
  Claim C10.  When a binding node is loaded for a live Action, the Binding created for it
  is appended to the Action's bindings, and its optional flag is true exactly when the
  node has an attribute named \<^verbatim>\<open>optional\<close>, whatever the value of that attribute.
\<close>

theorem binding_optional_from_presence:
  assumes "actionAt sys action = Some act"
  shows "map_option mOptional
           (bindings (snd (processActionBindingXML sys (Some n) action)) (nextRef sys)) =
           Some (''optional'' \<in> fst ` set (node_attributes n)) \<and>
         map_option mBindings (actionAt (snd (processActionBindingXML sys (Some n) action)) action) =
           Some (mBindings act @ [Ref (nextRef sys)])"
proof -
  obtain a where a: "action = Ref a" "actions sys a = Some act"
    using assms by (auto simp: actionAt_def split: ptr.splits)
  define b where "b = nextRef sys"
  define sys1 where "sys1 = snd (Action_createBinding sys action)"
  define sys2 where "sys2 = snd (set_mOptional sys1 (Ref b) (first_attribute n ''optional'' \<noteq> None))"
  define f where "f = (\<lambda>s child. processActionBindXML s (Some child) (Ref b) action)"
  define sys3 where "sys3 = snd (for_each f (first_node_siblings n ''bind'') sys2)"
  have c1: "Action_createBinding sys action = (Inr (Ref b), sys1)"
    using a by (simp add: Action_createBinding_def sys1_def b_def)
  have b1: "bindings sys1 b = Some \<lparr>mOptional = False, mBindables = []\<rparr>"
    and a1: "actions sys1 a = Some (act\<lparr>mBindings := mBindings act @ [Ref b]\<rparr>)"
    using a by (simp_all add: Action_createBinding_def sys1_def b_def)
  have c2: "set_mOptional sys1 (Ref b) (first_attribute n ''optional'' \<noteq> None) = (Inr (), sys2)"
    using b1 by (simp add: set_mOptional_def sys2_def)
  have b2: "map_option mOptional (bindings sys2 b) = Some (first_attribute n ''optional'' \<noteq> None)"
    and a2: "actions sys2 a = Some (act\<lparr>mBindings := mBindings act @ [Ref b]\<rparr>)"
    using b1 a1 by (simp_all add: set_mOptional_def sys2_def)
  have keep: "(map_option mOptional (bindings sys3 b), actions sys3) =
              (map_option mOptional (bindings sys2 b), actions sys2)"
    unfolding sys3_def
    by (rule for_each_preserves) (simp add: f_def processActionBindXML_preserves)
  have res: "snd (processActionBindingXML sys (Some n) action) = sys3"
    using a(1) c1 c2
    by (simp add: processActionBindingXML_def sys3_def f_def split: prod.splits sum.splits)
  have pres: "(first_attribute n ''optional'' \<noteq> None) = (''optional'' \<in> fst ` set (node_attributes n))"
    by (force simp: first_attribute_def find_None_iff)
  have m: "map_option mOptional (bindings sys3 b) =
             Some (''optional'' \<in> fst ` set (node_attributes n))"
    using keep b2 pres by simp
  have a3: "actions sys3 a = Some (act\<lparr>mBindings := mBindings act @ [Ref b]\<rparr>)"
    using keep a2 by simp
  show ?thesis
    unfolding res b_def [symmetric] using m a3 a(1) by (simp add: actionAt_def)
qed

theorem binding_optional_from_presence_witness:
  "map_option mOptional
     (bindings (snd (processActionBindingXML sys_game (Some binding_node_optional0) (Ref 1))) 2) =
     Some True \<and>
   map_option mOptional
     (bindings (snd (processActionBindingXML sys_game (Some binding_node_plain) (Ref 1))) 2) =
     Some False"
  using binding_optional_from_presence [of sys_game "Ref 1"
      "\<lparr>Action_mName = ''Jump'', Action_mBindableName = ''Game/Jump'',
        actionType = AT_TRIGGER, properties = [], emulatorProperties = [], mBindings = []\<rparr>"
      binding_node_optional0]
    binding_optional_from_presence [of sys_game "Ref 1"
      "\<lparr>Action_mName = ''Jump'', Action_mBindableName = ''Game/Jump'',
        actionType = AT_TRIGGER, properties = [], emulatorProperties = [], mBindings = []\<rparr>"
      binding_node_plain]
  by (simp add: sys_game_actions actionAt_def binding_node_optional0_def binding_node_plain_def)

lemma processAttributes_before_name:
  "\<forall>a \<in> set pre. fst a \<noteq> ''name'' \<Longrightarrow>
   processAttributes schema (pre @ post) atype [] NullPtr sys =
   processAttributes schema (filter (\<lambda>a. fst a = ''type'' \<or> fst a = ''name'') pre @ post)
     atype [] NullPtr sys"
  by (induction pre arbitrary: atype) (simp_all add: Let_def)

lemma processAttributes_before_type:
  "\<forall>a \<in> set pre. fst a \<noteq> ''type'' \<Longrightarrow>
   processAttributes schema (pre @ post) [] aname NullPtr sys =
   processAttributes schema (filter (\<lambda>a. fst a = ''type'' \<or> fst a = ''name'') pre @ post)
     [] aname NullPtr sys"
  by (induction pre arbitrary: aname) (simp_all add: Let_def)

lemma processAttributes_instantiated:
  "actions sys a = Some act \<Longrightarrow>
   processAttributes schema attrs atype aname (Ref a) sys =
     (Inr (Ref a),
      sys\<lparr>actions := (actions sys)(a \<mapsto> act\<lparr>properties :=
        fold (\<lambda>x. AList.update (fst x) (snd x))
          (filter (\<lambda>x. fst x \<noteq> ''type'' \<and> fst x \<noteq> ''name'') attrs) (properties act)\<rparr>)\<rparr>)"
proof (induction attrs arbitrary: atype aname sys act)
  case Nil
  then have "(actions sys)(a \<mapsto> act) = actions sys" by (simp add: fun_upd_idem)
  then show ?case by simp
next
  case (Cons x xs)
  show ?case
  proof (cases "fst x \<noteq> ''type'' \<and> fst x \<noteq> ''name''")
    case True
    define act1 where "act1 = act\<lparr>properties := AList.update (fst x) (snd x) (properties act)\<rparr>"
    define sys1 where "sys1 = sys\<lparr>actions := (actions sys)(a \<mapsto> act1)\<rparr>"
    have set: "Action_setProperty sys (Ref a) (fst x) (snd x) = (Inr (), sys1)"
      using Cons.prems by (simp add: Action_setProperty_def sys1_def act1_def)
    have live: "actions sys1 a = Some act1" by (simp add: sys1_def)
    have step: "processAttributes schema (x # xs) atype aname (Ref a) sys =
                processAttributes schema xs atype aname (Ref a) sys1"
      using True set by (simp add: Let_def)
    have fin: "sys1\<lparr>actions := (actions sys1)(a \<mapsto> act1\<lparr>properties :=
        fold (\<lambda>x. AList.update (fst x) (snd x))
          (filter (\<lambda>x. fst x \<noteq> ''type'' \<and> fst x \<noteq> ''name'') xs) (properties act1)\<rparr>)\<rparr> =
      sys\<lparr>actions := (actions sys)(a \<mapsto> act\<lparr>properties :=
        fold (\<lambda>x. AList.update (fst x) (snd x))
          (filter (\<lambda>x. fst x \<noteq> ''type'' \<and> fst x \<noteq> ''name'') (x # xs)) (properties act)\<rparr>)\<rparr>"
      using True by (simp add: sys1_def act1_def)
    show ?thesis
      unfolding step Cons.IH [OF live] fin by (rule refl)
  next
    case False
    then show ?thesis
      using Cons.IH [OF Cons.prems] by (auto simp: Let_def)
  qed
qed

lemma Action_createBinding_keeps:
  "map_option (\<lambda>act. (Action_mName act, properties act))
     (actions (snd (Action_createBinding s p)) a) =
   map_option (\<lambda>act. (Action_mName act, properties act)) (actions s a) \<and>
   schemas (snd (Action_createBinding s p)) = schemas s"
  by (auto simp: Action_createBinding_def split: ptr.splits option.splits)

lemma set_mOptional_keeps:
  "actions (snd (set_mOptional s p v)) = actions s \<and>
   schemas (snd (set_mOptional s p v)) = schemas s"
  by (auto simp: set_mOptional_def split: ptr.splits option.splits)

lemma Binding_bind_keeps:
  "actions (snd (Binding_bind s b target role)) = actions s \<and>
   schemas (snd (Binding_bind s b target role)) = schemas s"
  by (auto simp: Binding_bind_def split: ptr.splits option.splits sum.splits)

lemma Action_bind_keeps:
  "map_option (\<lambda>act. (Action_mName act, properties act))
     (actions (snd (Action_bind s p target)) a) =
   map_option (\<lambda>act. (Action_mName act, properties act)) (actions s a) \<and>
   schemas (snd (Action_bind s p target)) = schemas s"
proof (cases "Action_createBinding s p")
  case (Pair r s1)
  have k: "map_option (\<lambda>act. (Action_mName act, properties act)) (actions s1 a) =
           map_option (\<lambda>act. (Action_mName act, properties act)) (actions s a) \<and>
           schemas s1 = schemas s"
    using Action_createBinding_keeps [of s p a] Pair by simp
  show ?thesis
  proof (cases r)
    case (Inl e)
    with Pair k show ?thesis by (simp add: Action_bind_def)
  next
    case (Inr b)
    with Pair k Binding_bind_keeps [of s1 b target "[]"] show ?thesis
      by (simp add: Action_bind_def)
  qed
qed

lemma processActionBindXML_keeps:
  "(map_option (\<lambda>act. (Action_mName act, properties act))
      (actions (snd (processActionBindXML s (Some c) b action)) a),
    schemas (snd (processActionBindXML s (Some c) b action))) =
   (map_option (\<lambda>act. (Action_mName act, properties act)) (actions s a), schemas s)"
proof (cases "action = NullPtr")
  case True
  then show ?thesis by (simp add: processActionBindXML_def)
next
  case False
  define role where "role = (case first_attribute c ''role'' of None \<Rightarrow> [] | Some x \<Rightarrow> snd x)"
  show ?thesis
  proof (cases "b = NullPtr")
    case True
    with False have "snd (processActionBindXML s (Some c) b action) =
                     snd (Action_bind s action (node_value c))"
      by (simp add: processActionBindXML_def Let_def snd_status)
    then show ?thesis using Action_bind_keeps [of s action "node_value c" a] by simp
  next
    case nb: False
    have "snd (processActionBindXML s (Some c) b action) =
          snd (Binding_bind s b (node_value c) role)"
      using nb False
      by (cases "role = []") (simp_all add: processActionBindXML_def Let_def snd_status role_def)
    then show ?thesis using Binding_bind_keeps [of s b "node_value c" role] by simp
  qed
qed

lemma processActionBindingXML_keeps:
  "(map_option (\<lambda>act. (Action_mName act, properties act))
      (actions (snd (processActionBindingXML s (Some c) action)) a),
    schemas (snd (processActionBindingXML s (Some c) action))) =
   (map_option (\<lambda>act. (Action_mName act, properties act)) (actions s a), schemas s)"
proof (cases "action = NullPtr")
  case True
  then show ?thesis by (simp add: processActionBindingXML_def)
next
  case False
  show ?thesis
  proof (cases "Action_createBinding s action")
    case (Pair r s1)
    have k1: "map_option (\<lambda>act. (Action_mName act, properties act)) (actions s1 a) =
              map_option (\<lambda>act. (Action_mName act, properties act)) (actions s a) \<and>
              schemas s1 = schemas s"
      using Action_createBinding_keeps [of s action a] Pair by simp
    show ?thesis
    proof (cases r)
      case (Inl e)
      with Pair k1 False show ?thesis by (simp add: processActionBindingXML_def)
    next
      case (Inr b)
      show ?thesis
      proof (cases "set_mOptional s1 b (first_attribute c ''optional'' \<noteq> None)")
        case p2: (Pair r2 s2)
        have k2: "actions s2 = actions s1 \<and> schemas s2 = schemas s1"
          using set_mOptional_keeps [of s1 b "first_attribute c ''optional'' \<noteq> None"] p2
          by simp
        show ?thesis
        proof (cases r2)
          case (Inl e)
          with Pair Inr p2 k1 k2 False show ?thesis
            by (simp add: processActionBindingXML_def)
        next
          case i2: (Inr u)
          define s3 where
            "s3 = snd (for_each (\<lambda>s child. processActionBindXML s (Some child) b action)
                         (first_node_siblings c ''bind'') s2)"
          have k3: "(map_option (\<lambda>act. (Action_mName act, properties act)) (actions s3 a),
                     schemas s3) =
                    (map_option (\<lambda>act. (Action_mName act, properties act)) (actions s2 a),
                     schemas s2)"
            unfolding s3_def by (rule for_each_preserves) (rule processActionBindXML_keeps)
          have "snd (processActionBindingXML s (Some c) action) = s3"
            using Pair Inr p2 i2 False
            by (simp add: processActionBindingXML_def s3_def snd_status)
          with k1 k2 k3 show ?thesis by simp
        qed
      qed
    qed
  qed
qed

lemma processActionXML_keeps_after_attributes:
  assumes "processAttributes schema (node_attributes n) [] [] NullPtr sys = (Inr t, s1)"
  shows "(map_option (\<lambda>act. (Action_mName act, properties act))
            (actions (snd (processActionXML sys (Some n) schema)) a),
          schemas (snd (processActionXML sys (Some n) schema))) =
         (map_option (\<lambda>act. (Action_mName act, properties act)) (actions s1 a), schemas s1)"
proof -
  define s2 where
    "s2 = snd (for_each (\<lambda>s child. processActionBindingXML s (Some child) t)
                 (first_node_siblings n ''binding'') s1)"
  define s3 where
    "s3 = snd (for_each (\<lambda>s child. processActionBindXML s (Some child) NullPtr t)
                 (first_node_siblings n ''bind'') s2)"
  have k2: "(map_option (\<lambda>act. (Action_mName act, properties act)) (actions s2 a), schemas s2) =
            (map_option (\<lambda>act. (Action_mName act, properties act)) (actions s1 a), schemas s1)"
    unfolding s2_def by (rule for_each_preserves) (rule processActionBindingXML_keeps)
  have k3: "(map_option (\<lambda>act. (Action_mName act, properties act)) (actions s3 a), schemas s3) =
            (map_option (\<lambda>act. (Action_mName act, properties act)) (actions s2 a), schemas s2)"
    unfolding s3_def by (rule for_each_preserves) (rule processActionBindXML_keeps)
  have "snd (processActionXML sys (Some n) schema) = s2 \<or>
        snd (processActionXML sys (Some n) schema) = s3"
    using assms
    by (auto simp: processActionXML_def s2_def s3_def split: prod.splits sum.splits)
  with k2 k3 show ?thesis by auto
qed

lemma createActionOfType_known:
  assumes "schemaAt sys schema = Some sch" and "RBT.lookup (mActions sch) N = None"
    and "T \<in> set [''AnalogAxis'', ''Sequence'', ''Trigger'']"
  shows "\<exists>s2. createActionOfType sys schema T N = (Inr (Ref (nextRef sys)), s2) \<and>
              map_option (\<lambda>act. (Action_mName act, properties act)) (actions s2 (nextRef sys)) =
                Some (N, []) \<and>
              map_option (\<lambda>sch'. RBT.lookup (mActions sch') N) (schemaAt s2 schema) =
                Some (Some (Ref (nextRef sys)))"
  using assms
  by (auto simp: createActionOfType_def ActionSchema_createAction_def schemaAt_def map_insert_def
      split: ptr.splits)

lemma processAttributes_type_name:
  assumes "schemaAt sys schema = Some sch" and "RBT.lookup (mActions sch) N = None"
    and "N \<noteq> []" and "T \<in> set [''AnalogAxis'', ''Sequence'', ''Trigger'']"
    and "attrs = (''type'', T) # (''name'', N) # post \<or> attrs = (''name'', N) # (''type'', T) # post"
  shows "\<exists>s1. processAttributes schema attrs [] [] NullPtr sys = (Inr (Ref (nextRef sys)), s1) \<and>
              map_option (\<lambda>act. (Action_mName act, properties act)) (actions s1 (nextRef sys)) =
                Some (N, fold (\<lambda>x. AList.update (fst x) (snd x))
                           (filter (\<lambda>x. fst x \<noteq> ''type'' \<and> fst x \<noteq> ''name'') post) []) \<and>
              map_option (\<lambda>sch'. RBT.lookup (mActions sch') N) (schemaAt s1 schema) =
                Some (Some (Ref (nextRef sys)))"
proof -
  obtain s2 where c: "createActionOfType sys schema T N = (Inr (Ref (nextRef sys)), s2)"
    and a2: "map_option (\<lambda>act. (Action_mName act, properties act)) (actions s2 (nextRef sys)) =
                Some (N, [])"
    and sc2: "map_option (\<lambda>sch'. RBT.lookup (mActions sch') N) (schemaAt s2 schema) =
                Some (Some (Ref (nextRef sys)))"
    using createActionOfType_known [OF assms(1,2,4)] by blast
  obtain act where act: "actions s2 (nextRef sys) = Some act" "Action_mName act = N"
    "properties act = []"
    using a2 by auto
  have T: "T \<noteq> []" using assms(4) by auto
  have two: "processAttributes schema attrs [] [] NullPtr sys =
             processAttributes schema post T N (Ref (nextRef sys)) s2"
    using assms(5) assms(3) T c by (auto simp: Let_def)
  note inst = processAttributes_instantiated [OF act(1), of schema post T N]
  have sch_keep: "schemaAt (s2\<lparr>actions := X\<rparr>) schema = schemaAt s2 schema" for X
    by (simp add: schemaAt_def split: ptr.splits)
  show ?thesis
    unfolding two inst using act sc2 by (simp add: sch_keep)
qed

text \<open>
  Claim C4, as the code has it.  When an action node is loaded, no attribute is applied
  before both \<^verbatim>\<open>type\<close> and \<^verbatim>\<open>name\<close> have been read: the attributes other than these
  two that come while one of the two is still missing are skipped without any report, the
  node loads exactly as it does without them.  Once the action is instantiated, every
  remaining attribute other than \<^verbatim>\<open>type\<close> and \<^verbatim>\<open>name\<close>, known or not, is stored in
  the property table of the action: for a node whose first two attributes are a known
  \<^verbatim>\<open>type\<close> and a \<^verbatim>\<open>name\<close> new to the schema, the loaded action is registered in
  the schema under that name and its property table holds the attributes that follow.  The
  status of the routine is 0 whenever it returns one for a node.
\<close>

theorem action_attributes_order:
  "(((\<forall>a \<in> set pre. fst a \<noteq> ''type'') \<or> (\<forall>a \<in> set pre. fst a \<noteq> ''name'')) \<longrightarrow>
      processActionXML sys (Some (Node nm (pre @ post) v cs)) schema =
      processActionXML sys
        (Some (Node nm (filter (\<lambda>a. fst a = ''type'' \<or> fst a = ''name'') pre @ post) v cs))
        schema) \<and>
   (actions sys a = Some act \<longrightarrow>
      processAttributes schema attrs atype aname (Ref a) sys =
        (Inr (Ref a),
         sys\<lparr>actions := (actions sys)(a \<mapsto> act\<lparr>properties :=
           fold (\<lambda>x. AList.update (fst x) (snd x))
             (filter (\<lambda>x. fst x \<noteq> ''type'' \<and> fst x \<noteq> ''name'') attrs) (properties act)\<rparr>)\<rparr>)) \<and>
   (fst (processActionXML sys (Some n) schema) = Inr status \<longrightarrow> status = 0) \<and>
   (schemaAt sys schema = Some sch \<and> RBT.lookup (mActions sch) N = None \<and> N \<noteq> [] \<and>
    T \<in> set [''AnalogAxis'', ''Sequence'', ''Trigger''] \<and>
    (node_attributes n = (''type'', T) # (''name'', N) # post \<or>
     node_attributes n = (''name'', N) # (''type'', T) # post) \<longrightarrow>
      map_option (\<lambda>act. (Action_mName act, properties act))
        (actionAt (snd (processActionXML sys (Some n) schema)) (Ref (nextRef sys))) =
        Some (N, fold (\<lambda>x. AList.update (fst x) (snd x))
                   (filter (\<lambda>x. fst x \<noteq> ''type'' \<and> fst x \<noteq> ''name'') post) []) \<and>
      map_option (\<lambda>sch'. RBT.lookup (mActions sch') N)
        (schemaAt (snd (processActionXML sys (Some n) schema)) schema) =
        Some (Some (Ref (nextRef sys))))"
proof -
  have skip: "processActionXML sys (Some (Node nm (pre @ post) v cs)) schema =
      processActionXML sys
        (Some (Node nm (filter (\<lambda>a. fst a = ''type'' \<or> fst a = ''name'') pre @ post) v cs))
        schema"
    if "(\<forall>a \<in> set pre. fst a \<noteq> ''type'') \<or> (\<forall>a \<in> set pre. fst a \<noteq> ''name'')"
    using that processAttributes_before_type [of pre schema post "[]" sys]
      processAttributes_before_name [of pre schema post "[]" sys]
    by (auto simp: processActionXML_def first_node_siblings_def cong: prod.case_cong sum.case_cong)
  have status0: "status = 0" if "fst (processActionXML sys (Some n) schema) = Inr status"
    using that by (auto simp: processActionXML_def split: prod.splits sum.splits)
  have stored:
    "map_option (\<lambda>act. (Action_mName act, properties act))
        (actionAt (snd (processActionXML sys (Some n) schema)) (Ref (nextRef sys))) =
        Some (N, fold (\<lambda>x. AList.update (fst x) (snd x))
                   (filter (\<lambda>x. fst x \<noteq> ''type'' \<and> fst x \<noteq> ''name'') post) []) \<and>
      map_option (\<lambda>sch'. RBT.lookup (mActions sch') N)
        (schemaAt (snd (processActionXML sys (Some n) schema)) schema) =
        Some (Some (Ref (nextRef sys)))"
    if h: "schemaAt sys schema = Some sch" "RBT.lookup (mActions sch) N = None" "N \<noteq> []"
      "T \<in> set [''AnalogAxis'', ''Sequence'', ''Trigger'']"
      "node_attributes n = (''type'', T) # (''name'', N) # post \<or>
       node_attributes n = (''name'', N) # (''type'', T) # post"
  proof -
    obtain s1 where
      pa: "processAttributes schema (node_attributes n) [] [] NullPtr sys =
             (Inr (Ref (nextRef sys)), s1)"
      and a1: "map_option (\<lambda>act. (Action_mName act, properties act)) (actions s1 (nextRef sys)) =
                Some (N, fold (\<lambda>x. AList.update (fst x) (snd x))
                           (filter (\<lambda>x. fst x \<noteq> ''type'' \<and> fst x \<noteq> ''name'') post) [])"
      and sc1: "map_option (\<lambda>sch'. RBT.lookup (mActions sch') N) (schemaAt s1 schema) =
                Some (Some (Ref (nextRef sys)))"
      using processAttributes_type_name [OF h] by blast
    have keep:
      "(map_option (\<lambda>act. (Action_mName act, properties act))
          (actions (snd (processActionXML sys (Some n) schema)) (nextRef sys)),
        schemas (snd (processActionXML sys (Some n) schema))) =
       (map_option (\<lambda>act. (Action_mName act, properties act)) (actions s1 (nextRef sys)),
        schemas s1)"
      by (rule processActionXML_keeps_after_attributes [OF pa])
    then have "schemaAt (snd (processActionXML sys (Some n) schema)) schema = schemaAt s1 schema"
      by (cases schema) (simp_all add: schemaAt_def)
    with keep a1 sc1 show ?thesis by (simp add: actionAt_def)
  qed
  show ?thesis
    using skip processAttributes_instantiated [of sys a act schema attrs atype aname] status0
      stored
    by blast
qed

theorem action_attributes_order_witness:
  "processActionXML sys_game_schema (Some action_node_late_type) (Ref 0) =
     processActionXML sys_game_schema
       (Some (Node ''action'' [(''type'', ''Trigger''), (''name'', ''Jump'')] [] [])) (Ref 0) \<and>
   processAttributes (Ref 0) [(''Colour'', ''red'')] ''Trigger'' ''Jump'' (Ref 1) sys_game =
     (Inr (Ref 1),
      sys_game\<lparr>actions := [1 \<mapsto> \<lparr>Action_mName = ''Jump'', Action_mBindableName = ''Game/Jump'',
        actionType = AT_TRIGGER, properties = [(''Colour'', ''red'')], emulatorProperties = [],
        mBindings = []\<rparr>]\<rparr>) \<and>
   fst (processActionXML sys_game_schema (Some action_node_unknown_attr) (Ref 0)) = Inr 0 \<and>
   map_option (\<lambda>act. (Action_mName act, properties act))
     (actionAt (snd (processActionXML sys_game_schema (Some action_node_unknown_attr) (Ref 0)))
        (Ref 1)) =
     Some (''Jump'', [(''Colour'', ''red'')]) \<and>
   processActionXML sys_game_schema (Some action_node_unknown_attr) (Ref 0) =
     (Inr 0,
      sys_game\<lparr>actions := [1 \<mapsto> \<lparr>Action_mName = ''Jump'', Action_mBindableName = ''Game/Jump'',
        actionType = AT_TRIGGER, properties = [(''Colour'', ''red'')], emulatorProperties = [],
        mBindings = []\<rparr>]\<rparr>)"
  using action_attributes_order [where pre = "[(''Sensitivity'', ''2'')]"
      and sys = sys_game_schema
      and nm = "''action''"
      and post = "[(''type'', ''Trigger''), (''name'', ''Jump'')]"
      and v = "[]"
      and cs = "[]"
      and schema = "Ref 0"
      and a = 1
      and act = "\<lparr>Action_mName = ''Jump'', Action_mBindableName = ''Game/Jump'',
        actionType = AT_TRIGGER, properties = [], emulatorProperties = [], mBindings = []\<rparr>"
      and attrs = "[]"
      and atype = "[]"
      and aname = "[]"
      and n = action_node_unknown_attr
      and status = 0
      and sch = "\<lparr>ActionSchema_mName = ''Game'', mActions = RBT.empty\<rparr>"
      and N = "''Jump''"
      and T = "''Trigger''"]
    action_attributes_order [where pre = "[]"
      and sys = sys_game
      and nm = "[]"
      and post = "[]"
      and v = "[]"
      and cs = "[]"
      and schema = "Ref 0"
      and a = 1
      and act = "\<lparr>Action_mName = ''Jump'', Action_mBindableName = ''Game/Jump'',
        actionType = AT_TRIGGER, properties = [], emulatorProperties = [], mBindings = []\<rparr>"
      and attrs = "[(''Colour'', ''red'')]"
      and atype = "''Trigger''"
      and aname = "''Jump''"
      and n = action_node_unknown_attr
      and status = 0
      and sch = "\<lparr>ActionSchema_mName = ''Game'', mActions = RBT.empty\<rparr>"
      and N = "''Jump''"
      and T = "''Trigger''"]
    action_attributes_order [where pre = "[]"
      and sys = sys_game_schema
      and nm = "[]"
      and post = "[(''Colour'', ''red'')]"
      and v = "[]"
      and cs = "[]"
      and schema = "Ref 0"
      and a = 1
      and act = "\<lparr>Action_mName = ''Jump'', Action_mBindableName = ''Game/Jump'',
        actionType = AT_TRIGGER, properties = [], emulatorProperties = [], mBindings = []\<rparr>"
      and attrs = "[]"
      and atype = "[]"
      and aname = "[]"
      and n = action_node_unknown_attr
      and status = 0
      and sch = "\<lparr>ActionSchema_mName = ''Game'', mActions = RBT.empty\<rparr>"
      and N = "''Jump''"
      and T = "''Trigger''"]
  by (simp add: action_node_late_type_def action_node_unknown_attr_def sys_game_full
      sys_game_schema_eq processActionXML_def Let_def createActionOfType_def
      ActionSchema_createAction_def Action_setProperty_def first_node_siblings_def System_new_def
      schemaAt_def actionAt_def map_insert_def)


text \<open>
  The attribute \<^verbatim>\<open>Sensitivity\<close> comes before \<^verbatim>\<open>type\<close> and \<^verbatim>\<open>name\<close>: the routine
  returns the status 0 and raises nothing, the action \<^verbatim>\<open>Jump\<close> is created, and its
  property table is empty.
\<close>

theorem early_attribute_not_reported_counterexample:
  "processActionXML sys_game_schema (Some action_node_late_type) (Ref 0) = (Inr 0, sys_game) \<and>
   map_option properties (actionAt sys_game (Ref 1)) = Some []"
  by (simp add: sys_game_from_schema sys_game_schema_eq processActionXML_def
      action_node_late_type_def Let_def createActionOfType_def ActionSchema_createAction_def
      first_node_siblings_def System_new_def actionAt_def)

subsection \<open>Saving\<close>

text \<open>
  Claim C3, as the code has it.  For every action that is saved, the children of its node
  are the nodes of its Bindings, in order.  A binding node carries the attribute
  \<^verbatim>\<open>optional\<close> (with the value 1) exactly when the optional flag of the Binding is
  true, and its children are the nodes of the entries of the Binding, in order.  A bind
  node carries a \<^verbatim>\<open>role\<close> attribute exactly when the Bindable pointer of the entry is
  not null, and the value of the attribute is the role label, empty or not.  The text of
  the bind node is the name of the bound Bindable, the literal \<^verbatim>\<open>None\<close> for the
  reserved slot, and for a null Bindable the label of the entry, which holds the name of
  the unresolved target.  Names and labels are written as C strings.
\<close>

theorem saved_binding_nodes:
  "(actionAt sys a = Some act \<and> saveActionNode sys a = Inr an \<longrightarrow>
      map_result (saveBindingNode sys) (mBindings act) = Inr (node_children an)) \<and>
   (bindingAt sys b = Some bd \<and> saveBindingNode sys b = Inr bn \<longrightarrow>
      node_name bn = ''binding'' \<and>
      node_attributes bn = (if mOptional bd then [(''optional'', ''1'')] else []) \<and>
      map_result (saveBindNode sys) (mBindables bd) = Inr (node_children bn)) \<and>
   (saveBindNode sys (role, p) = Inr n \<longrightarrow>
      node_name n = ''bind'' \<and> node_children n = [] \<and>
      node_attributes n = (if p \<noteq> NullPtr then [(''role'', c_str role)] else []) \<and>
      (p = NullPtr \<longrightarrow> node_value n = c_str role) \<and>
      (p = OnePtr \<longrightarrow> node_value n = ''None'') \<and>
      (p \<noteq> NullPtr \<and> p \<noteq> OnePtr \<longrightarrow>
         (\<exists>nm. getBindableName sys p = Inr nm \<and> node_value n = c_str nm)))"
proof -
  have action: "map_result (saveBindingNode sys) (mBindings act) = Inr (node_children an)"
    if "actionAt sys a = Some act" and "saveActionNode sys a = Inr an"
    using that by (auto simp: saveActionNode_def Let_def split: sum.splits)
  have binding: "node_name bn = ''binding'' \<and>
      node_attributes bn = (if mOptional bd then [(''optional'', ''1'')] else []) \<and>
      map_result (saveBindNode sys) (mBindables bd) = Inr (node_children bn)"
    if "bindingAt sys b = Some bd" and "saveBindingNode sys b = Inr bn"
    using that by (auto simp: saveBindingNode_def split: sum.splits)
  have bind: "node_name n = ''bind'' \<and> node_children n = [] \<and>
      node_attributes n = (if p \<noteq> NullPtr then [(''role'', c_str role)] else []) \<and>
      (p = NullPtr \<longrightarrow> node_value n = c_str role) \<and>
      (p = OnePtr \<longrightarrow> node_value n = ''None'') \<and>
      (p \<noteq> NullPtr \<and> p \<noteq> OnePtr \<longrightarrow>
         (\<exists>nm. getBindableName sys p = Inr nm \<and> node_value n = c_str nm))"
    if "saveBindNode sys (role, p) = Inr n"
    using that by (auto simp: saveBindNode_def c_str_def split: sum.splits if_splits)
  show ?thesis
    using action binding bind by blast
qed

theorem saved_binding_nodes_witness:
  "saveActionNode sys_slots (Ref 3) =
     Inr (Node ''action'' [(''name'', ''Steer''), (''type'', ''AnalogAxis'')] []
       [Node ''binding'' [(''optional'', ''1'')] []
         [Node ''bind'' [(''role'', ''Positive'')] ''Keyboard/A'' [],
          Node ''bind'' [(''role'', ''Negative'')] ''None'' [],
          Node ''bind'' [] ''Mouse/X'' []]]) \<and>
   saveBindingNode sys_bound (Ref 4) =
     Inr (Node ''binding'' [] [] [Node ''bind'' [(''role'', [])] ''Keyboard/A'' []])"
  using saved_binding_nodes [where sys = sys_slots and a = "Ref 3" and b = "Ref 4"
      and role = "''Positive''" and p = "Ref 1"
      and act = "\<lparr>Action_mName = ''Steer'', Action_mBindableName = ''Game/Steer'',
                  actionType = AT_ANALOG_AXIS, properties = [], emulatorProperties = [],
                  mBindings = [Ref 4]\<rparr>"
      and bd = "\<lparr>mOptional = True,
                 mBindables = [(''Positive'', Ref 1), (''Negative'', OnePtr),
                               (''Mouse/X'', NullPtr)]\<rparr>"
      and an = "Node ''action'' [(''name'', ''Steer''), (''type'', ''AnalogAxis'')] []
                 [Node ''binding'' [(''optional'', ''1'')] []
                   [Node ''bind'' [(''role'', ''Positive'')] ''Keyboard/A'' [],
                    Node ''bind'' [(''role'', ''Negative'')] ''None'' [],
                    Node ''bind'' [] ''Mouse/X'' []]]"
      and bn = "Node ''binding'' [(''optional'', ''1'')] []
                   [Node ''bind'' [(''role'', ''Positive'')] ''Keyboard/A'' [],
                    Node ''bind'' [(''role'', ''Negative'')] ''None'' [],
                    Node ''bind'' [] ''Mouse/X'' []]"
      and n = "Node ''bind'' [(''role'', ''Positive'')] ''Keyboard/A'' []"]
    saved_binding_nodes [where sys = sys_slots and a = NullPtr and b = NullPtr
      and role = "''Negative''" and p = OnePtr
      and n = "Node ''bind'' [(''role'', ''Negative'')] ''None'' []"]
    saved_binding_nodes [where sys = sys_slots and a = NullPtr and b = NullPtr
      and role = "''Mouse/X''" and p = NullPtr
      and n = "Node ''bind'' [] ''Mouse/X'' []"]
    saved_binding_nodes [where sys = sys_bound and a = NullPtr and b = "Ref 4"
      and role = "[]" and p = "Ref 1"
      and bd = "\<lparr>mOptional = False, mBindables = [([], Ref 1)]\<rparr>"
      and bn = "Node ''binding'' [] [] [Node ''bind'' [(''role'', [])] ''Keyboard/A'' []]"
      and n = "Node ''bind'' [(''role'', [])] ''Keyboard/A'' []"]
  by (simp add: saveActionNode_def saveBindingNode_def saveBindNode_def actionAt_def
      bindingAt_def sys_bound_eq sys_slots_eq getBindableName_def c_str_def)

text \<open>
  The action \<^verbatim>\<open>Jump\<close> has one Binding with one entry, the state \<^verbatim>\<open>Keyboard/A\<close> under
  the empty role label: its bind node carries a \<^verbatim>\<open>role\<close> attribute, with the empty
  value.
\<close>

theorem empty_role_attribute_counterexample:
  "saveActionNode sys_bound (Ref 3) =
     Inr (Node ''action'' [(''name'', ''Jump''), (''type'', ''Trigger'')] []
            [Node ''binding'' [] [] [Node ''bind'' [(''role'', [])] ''Keyboard/A'' []]]) \<and>
   map_option mBindables (bindingAt sys_bound (Ref 4)) = Some [([], Ref 1)]"
  by (simp add: saveActionNode_def saveBindingNode_def saveBindNode_def actionAt_def
      bindingAt_def sys_bound_eq getBindableName_def c_str_def)


end
